theory Spec2Isabelle
  imports Complex_Main
begin

section \<open>Order validation and audit logging of the storefront\<close>

text \<open>
  The development embeds three modules that \<^verbatim>\<open>src/lib/guest-checkout.ts\<close> holds one
  after the other: the audit logger (\<^verbatim>\<open>order-audit-logger\<close>, lines 436-746), the client
  side validator (\<^verbatim>\<open>order-validation-client\<close>, lines 746-988) and the server side
  validator (\<^verbatim>\<open>order-validation\<close>, lines 988-1421).

  Conventions of the embedding.
  \<^item> A field of type \<^verbatim>\<open>number\<close> holds a finite double, given by its value, a
    \<^typ>\<open>rat\<close>; a field that holds \<^verbatim>\<open>NaN\<close> or an infinity is outside the model.
    Comparisons of such values are exact. The sums and differences that the code
    computes are rounded to doubles as IEEE 754 prescribes; their results are of type
    \<open>number\<close>, which has the infinities and \<^verbatim>\<open>NaN\<close>.
  \<^item> A JavaScript string is a \<^typ>\<open>string\<close>; one \<^typ>\<open>char\<close> stands for one code unit, so
    code units above 255 are outside the model.
  \<^item> An optional property \<^verbatim>\<open>p?: T\<close> is a \<open>T option\<close>.
  \<^item> A thrown exception or a rejected promise is a value of type \<open>exn\<close>.
\<close>

subsection \<open>Data model\<close>

datatype exn = RangeError | TypeError | ReferenceError | Rejected string

datatype err_severity = error | warning

record OrderValidationError =
  field :: string
  message :: string
  code :: string
  severity :: err_severity

record OrderValidationResult =
  isValid :: bool
  errors :: "OrderValidationError list"
  warnings :: "OrderValidationError list"

record CartItem =
  product_id :: string
  quantity :: rat
  price :: rat

record CustomerInfo =
  full_name :: string
  email :: string
  phone :: string

text \<open>The address has a \<^verbatim>\<open>phone\<close> of its own, named \<open>address_phone\<close> here.\<close>

record Address =
  street_address :: string
  city :: string
  province :: string
  postal_code :: string
  address_phone :: string

text \<open>
  \<^verbatim>\<open>GuestOrderData | AuthenticatedOrderData\<close>: the two interfaces share the cart, the
  delivery and the money fields; they differ in \<^verbatim>\<open>customerInfo\<close>, \<^verbatim>\<open>address\<close> against
  \<^verbatim>\<open>userId\<close>, \<^verbatim>\<open>addressId\<close>. The code tells them apart with \<^verbatim>\<open>'customerInfo' in orderData\<close>
  and \<^verbatim>\<open>'userId' in orderData\<close>; here the tag is the constructor of \<open>shape\<close>.
\<close>

datatype shape =
  Guest (customerInfo : CustomerInfo) (address : Address)
| Authenticated (userId : string) (addressId : string)

record OrderData =
  shape :: shape
  cartItems :: "CartItem list"
  deliveryMethod :: string
  deliveryFee :: rat
  subtotal :: rat
  discountCode :: "string option"
  discountAmount :: "rat option"
  total :: rat

datatype event_type =
  validation_failure | validation_warning | order_blocked | suspicious_activity

datatype audit_severity = low | medium | high | critical

record AuditLogEntry =
  timestamp :: string
  event_type :: event_type
  user_id :: "string option"
  session_id :: "string option"
  order_data :: OrderData
  validation_errors :: "OrderValidationError list"
  entry_severity :: audit_severity
  ip_address :: "string option"
  user_agent :: "string option"
  additional_context :: "string option"

subsection \<open>Audit logger: severity and event type\<close>

definition criticalCodes :: "string list" where
  "criticalCodes =
     [''PRODUCT_NOT_FOUND'', ''CALCULATION_MISMATCH'', ''CART_EMPTY'', ''INVALID_USER_ID'']"

definition highCodes :: "string list" where
  "highCodes =
     [''PRODUCT_OUT_OF_STOCK'', ''INVALID_DISCOUNT_CODE'', ''DISCOUNT_USAGE_EXCEEDED'',
      ''MAXIMUM_ORDER_EXCEEDED'']"

definition mediumCodes :: "string list" where
  "mediumCodes =
     [''PRODUCT_PRICE_CHANGED'', ''DISCOUNT_EXPIRED'', ''MINIMUM_ORDER_NOT_MET'',
      ''INVALID_QUANTITY'']"

text \<open>\<^verbatim>\<open>xs.some(p)\<close> and \<^verbatim>\<open>xs.includes(x)\<close> (named \<open>array_includes\<close>).\<close>

definition some :: "'a list \<Rightarrow> ('a \<Rightarrow> bool) \<Rightarrow> bool" where
  "some xs p = list_ex p xs"

definition array_includes :: "'a list \<Rightarrow> 'a \<Rightarrow> bool" where
  "array_includes xs x = (x \<in> set xs)"

definition determineSeverity :: "OrderValidationError list \<Rightarrow> audit_severity" where
  "determineSeverity errs =
     (if some errs (\<lambda>e. array_includes criticalCodes (code e)) then critical
      else if some errs (\<lambda>e. array_includes highCodes (code e)) then high
      else if some errs (\<lambda>e. array_includes mediumCodes (code e)) then medium
      else low)"

definition determineEventType :: "OrderValidationError list \<Rightarrow> event_type" where
  "determineEventType errs =
     (let hasErrors = some errs (\<lambda>e. severity e = error);
          hasWarnings = some errs (\<lambda>e. severity e = warning)
      in if hasErrors then validation_failure
         else if hasWarnings then validation_warning
         else validation_failure)"

subsection \<open>Audit logger: masking\<close>

text \<open>
  The string operations of JavaScript that the masking uses. \<^verbatim>\<open>substring\<close> clamps both
  indices to the string and swaps them when they are out of order; \<^verbatim>\<open>repeat\<close> throws a
  \<^verbatim>\<open>RangeError\<close> on a negative count; \<^verbatim>\<open>split\<close> cuts at every separator.
\<close>

definition substring :: "string \<Rightarrow> int \<Rightarrow> int \<Rightarrow> string" where
  "substring s start fin =
     (let n = int (length s);
          a = max 0 (min start n);
          b = max 0 (min fin n);
          lo = min a b;
          hi = max a b
      in take (nat (hi - lo)) (drop (nat lo) s))"

definition substring_from :: "string \<Rightarrow> int \<Rightarrow> string" where
  "substring_from s start = substring s start (int (length s))"

definition repeat :: "string \<Rightarrow> int \<Rightarrow> exn + string" where
  "repeat s n = (if n < 0 then Inl RangeError else Inr (concat (replicate (nat n) s)))"

fun split :: "char \<Rightarrow> string \<Rightarrow> string list" where
  "split sep [] = [[]]"
| "split sep (c # cs) =
     (if c = sep then [] # split sep cs
      else (case split sep cs of
              [] \<Rightarrow> [[c]]
            | p # ps \<Rightarrow> (c # p) # ps))"

text \<open>
  \<^verbatim>\<open>const [username, domain] = email.split('@')\<close>: the first two pieces; a missing second
  piece is \<^verbatim>\<open>undefined\<close>, which the template literal prints as the word.
\<close>

definition maskEmail :: "string \<Rightarrow> exn + string" where
  "maskEmail e =
     (let parts = split CHR ''@'' e;
          username = (case parts of [] \<Rightarrow> [] | u # _ \<Rightarrow> u);
          domain = (case parts of _ # dm # _ \<Rightarrow> dm | _ \<Rightarrow> ''undefined'')
      in if length username > 2
         then (case repeat ''*'' (int (length username) - 2) of
                 Inl x \<Rightarrow> Inl x
               | Inr stars \<Rightarrow> Inr ((substring username 0 2 @ stars) @ ''@'' @ domain))
         else Inr (username @ ''@'' @ domain))"

definition maskPhone :: "string \<Rightarrow> exn + string" where
  "maskPhone p =
     (if length p > 4
      then (case repeat ''*'' (int (length p) - 6) of
              Inl x \<Rightarrow> Inl x
            | Inr stars \<Rightarrow>
                Inr (substring p 0 3 @ stars @ substring_from p (int (length p) - 3)))
      else Inr p)"

text \<open>
  \<^verbatim>\<open>sanitizeOrderData\<close> copies the draft and, for a guest draft, replaces
  \<^verbatim>\<open>customerInfo\<close> and \<^verbatim>\<open>address\<close> by copies with the masked fields. The masks are
  evaluated in the order email, phone, address phone; a throw of \<^verbatim>\<open>maskPhone\<close> leaves
  the function.
\<close>

definition sanitizeOrderData :: "OrderData \<Rightarrow> exn + OrderData" where
  "sanitizeOrderData d =
     (case shape d of
        Guest ci ad \<Rightarrow>
          (case maskEmail (email ci) of
             Inl x \<Rightarrow> Inl x
           | Inr e' \<Rightarrow>
               (case maskPhone (phone ci) of
                  Inl x \<Rightarrow> Inl x
                | Inr p' \<Rightarrow>
                    (case maskPhone (address_phone ad) of
                       Inl x \<Rightarrow> Inl x
                     | Inr ap' \<Rightarrow>
                         Inr (d\<lparr>shape :=
                                Guest (ci\<lparr>email := e', phone := p'\<rparr>)
                                      (ad\<lparr>address_phone := ap'\<rparr>)\<rparr>))))
      | Authenticated u a \<Rightarrow> Inr d)"

subsection \<open>Audit logger: the logging operations\<close>

text \<open>
  The logger reads the clock, the environment and the browser, and writes to the console
  and to the table \<^verbatim>\<open>order_audit_logs\<close>. What it reads is a \<open>logger_env\<close>; what it
  writes is a list of effects, in the order of the calls. An operation is a pair: how it
  ended (\<open>Inl\<close> an exception that leaves it, \<open>Inr\<close> its value) and what it wrote.
  \<^item> \<open>navigator_userAgent\<close> is \<open>Inl\<close> where no \<^verbatim>\<open>navigator\<close> exists;
  \<^item> \<open>createClient_server\<close> is the awaited \<^verbatim>\<open>createClient()\<close>;
  \<^item> \<open>insert_audit_log\<close> is the awaited insert: it rejects, or resolves to an object
    whose \<^verbatim>\<open>error\<close> is set or not.
  A console line is kept as its first argument. The \<^verbatim>\<open>console.error\<close> of
  \<^verbatim>\<open>sendCriticalAlert\<close>, which is the alert, is the effect \<open>Alert\<close>.
\<close>

record OrderAuditLogger =
  sessionId :: string

record logger_env =
  now_iso :: string
  development :: bool
  navigator_userAgent :: "exn + string"
  createClient_server :: "exn + unit"
  insert_audit_log :: "AuditLogEntry \<Rightarrow> exn + string option"

datatype effect = Console string | DbInsert AuditLogEntry | Alert AuditLogEntry

type_synonym 'a io = "(exn + 'a) \<times> effect list"

definition io_return :: "'a \<Rightarrow> 'a io" where
  "io_return x = (Inr x, [])"

definition io_lift :: "exn + 'a \<Rightarrow> 'a io" where
  "io_lift r = (r, [])"

definition io_emit :: "effect \<Rightarrow> unit io" where
  "io_emit ef = (Inr (), [ef])"

definition io_bind :: "'a io \<Rightarrow> ('a \<Rightarrow> 'b io) \<Rightarrow> 'b io" where
  "io_bind m f =
     (case m of
        (Inl x, t) \<Rightarrow> (Inl x, t)
      | (Inr v, t) \<Rightarrow> (case f v of (r, t') \<Rightarrow> (r, t @ t')))"

text \<open>\<^verbatim>\<open>try { m } catch (error) { h(error) }\<close>\<close>

definition io_try :: "'a io \<Rightarrow> (exn \<Rightarrow> 'a io) \<Rightarrow> 'a io" where
  "io_try m h =
     (case m of
        (Inl x, t) \<Rightarrow> (case h x of (r, t') \<Rightarrow> (r, t @ t'))
      | (Inr v, t) \<Rightarrow> (Inr v, t))"

definition getClientIP :: "string io" where
  "getClientIP = io_try (io_return ''client_ip_masked'') (\<lambda>x. io_return ''unknown'')"

definition storeAuditLog :: "logger_env \<Rightarrow> AuditLogEntry \<Rightarrow> unit io" where
  "storeAuditLog env logEntry =
     io_try
       (io_bind (io_lift (createClient_server env)) (\<lambda>supabase.
        io_bind (io_emit (DbInsert logEntry)) (\<lambda>u.
        io_bind (io_lift (insert_audit_log env logEntry)) (\<lambda>err.
          if err \<noteq> None then io_emit (Console ''Failed to store audit log:'')
          else io_return ()))))
       (\<lambda>x. io_emit (Console ''Error storing audit log:''))"

definition sendCriticalAlert :: "AuditLogEntry \<Rightarrow> unit io" where
  "sendCriticalAlert logEntry =
     io_try (io_emit (Alert logEntry))
            (\<lambda>x. io_emit (Console ''Failed to send critical alert:''))"

definition entry_user_id :: "OrderData \<Rightarrow> string option" where
  "entry_user_id d = (case shape d of Authenticated u a \<Rightarrow> Some u | Guest ci ad \<Rightarrow> None)"

definition logValidationViolation ::
  "logger_env \<Rightarrow> OrderAuditLogger \<Rightarrow> OrderData \<Rightarrow> OrderValidationError list \<Rightarrow>
   string option \<Rightarrow> unit io" where
  "logValidationViolation env this orderData errs additionalContext =
     io_try
       (let sev = determineSeverity errs;
            eventType = determineEventType errs
        in io_bind (io_lift (sanitizeOrderData orderData)) (\<lambda>sanitized.
           io_bind getClientIP (\<lambda>ip.
           io_bind (io_lift (navigator_userAgent env)) (\<lambda>ua.
           let logEntry =
                 \<lparr>timestamp = now_iso env,
                  event_type = eventType,
                  user_id = entry_user_id orderData,
                  session_id = Some (sessionId this),
                  order_data = sanitized,
                  validation_errors = errs,
                  entry_severity = sev,
                  ip_address = Some ip,
                  user_agent = Some ua,
                  additional_context = additionalContext\<rparr>
           in io_bind
                (if development env
                 then io_bind (io_emit (Console ''Order Validation Violation'')) (\<lambda>u.
                      io_bind (io_emit (Console ''Severity:'')) (\<lambda>u.
                      io_bind (io_emit (Console ''Event Type:'')) (\<lambda>u.
                      io_bind (io_emit (Console ''Errors:'')) (\<lambda>u.
                      io_bind (io_lift (sanitizeOrderData orderData)) (\<lambda>again.
                      io_emit (Console ''Order Data:''))))))
                 else io_return ()) (\<lambda>u.
              io_bind (storeAuditLog env logEntry) (\<lambda>u.
              if sev = critical then sendCriticalAlert logEntry else io_return ()))))))
       (\<lambda>x. io_emit (Console ''Failed to log validation violation:''))"

definition logValidationSuccess ::
  "logger_env \<Rightarrow> OrderAuditLogger \<Rightarrow> OrderData \<Rightarrow> OrderValidationError list \<Rightarrow> unit io" where
  "logValidationSuccess env this orderData warns =
     io_try
       (if length warns > 0
        then io_bind (io_lift (sanitizeOrderData orderData)) (\<lambda>sanitized.
             io_bind getClientIP (\<lambda>ip.
             io_bind (io_lift (navigator_userAgent env)) (\<lambda>ua.
             storeAuditLog env
               \<lparr>timestamp = now_iso env,
                event_type = validation_warning,
                user_id = entry_user_id orderData,
                session_id = Some (sessionId this),
                order_data = sanitized,
                validation_errors = warns,
                entry_severity = low,
                ip_address = Some ip,
                user_agent = Some ua,
                additional_context = None\<rparr>)))
        else io_return ())
       (\<lambda>x. io_emit (Console ''Failed to log validation success:''))"

definition logSuspiciousActivity ::
  "logger_env \<Rightarrow> OrderAuditLogger \<Rightarrow> string \<Rightarrow> OrderData \<Rightarrow> string option \<Rightarrow> unit io" where
  "logSuspiciousActivity env this description orderData ctx =
     io_try
       (io_bind (io_lift (sanitizeOrderData orderData)) (\<lambda>sanitized.
        io_bind getClientIP (\<lambda>ip.
        io_bind (io_lift (navigator_userAgent env)) (\<lambda>ua.
        let logEntry =
              \<lparr>timestamp = now_iso env,
               event_type = suspicious_activity,
               user_id = entry_user_id orderData,
               session_id = Some (sessionId this),
               order_data = sanitized,
               validation_errors =
                 [\<lparr>field = ''system'', message = description,
                   code = ''SUSPICIOUS_ACTIVITY'', severity = error\<rparr>],
               entry_severity = high,
               ip_address = Some ip,
               user_agent = Some ua,
               additional_context = ctx\<rparr>
        in io_bind (storeAuditLog env logEntry) (\<lambda>u. sendCriticalAlert logEntry)))))
       (\<lambda>x. io_emit (Console ''Failed to log suspicious activity:''))"

subsection \<open>JavaScript helpers of the validators\<close>

text \<open>
  \<^verbatim>\<open>trim\<close> removes white space at both ends; the white space of JavaScript among the
  code units below 256 is tab, line feed, vertical tab, form feed, carriage return, space
  and no-break space. \<^verbatim>\<open>!s?.trim()\<close> holds when the trimmed string is empty.
\<close>

definition isWhiteSpace :: "char \<Rightarrow> bool" where
  "isWhiteSpace c = ((of_char c :: nat) \<in> {9, 10, 11, 12, 13, 32, 160})"

definition trim :: "string \<Rightarrow> string" where
  "trim s = rev (dropWhile isWhiteSpace (rev (dropWhile isWhiteSpace s)))"

definition blank :: "string \<Rightarrow> bool" where
  "blank s = (trim s = [])"

text \<open>
  The two regular expressions of the email checks, matched by derivatives.
  \<open>NonSpaceNonAt\<close> is \<^verbatim>\<open>[^\s@]\<close>, \<open>NonSpace\<close> is \<^verbatim>\<open>\S\<close>. \<open>full_match\<close> is a pattern
  between \<^verbatim>\<open>^\<close> and \<^verbatim>\<open>$\<close>; \<open>search\<close> is \<^verbatim>\<open>test\<close> of a pattern with no anchor.
\<close>

datatype cclass = NonSpace | NonSpaceNonAt | Ch char | AnyCh

fun in_class :: "cclass \<Rightarrow> char \<Rightarrow> bool" where
  "in_class NonSpace c = (\<not> isWhiteSpace c)"
| "in_class NonSpaceNonAt c = (\<not> isWhiteSpace c \<and> c \<noteq> CHR ''@'')"
| "in_class (Ch a) c = (c = a)"
| "in_class AnyCh c = True"

datatype regex = Fail | Eps | Sym cclass | Seq regex regex | Alt regex regex | Star regex

fun nullable :: "regex \<Rightarrow> bool" where
  "nullable Fail = False"
| "nullable Eps = True"
| "nullable (Sym k) = False"
| "nullable (Seq r s) = (nullable r \<and> nullable s)"
| "nullable (Alt r s) = (nullable r \<or> nullable s)"
| "nullable (Star r) = True"

fun alt :: "regex \<Rightarrow> regex \<Rightarrow> regex" where
  "alt Fail s = s"
| "alt r Fail = r"
| "alt r s = Alt r s"

fun seq :: "regex \<Rightarrow> regex \<Rightarrow> regex" where
  "seq Fail s = Fail"
| "seq r Fail = Fail"
| "seq Eps s = s"
| "seq r s = Seq r s"

fun deriv :: "char \<Rightarrow> regex \<Rightarrow> regex" where
  "deriv c Fail = Fail"
| "deriv c Eps = Fail"
| "deriv c (Sym k) = (if in_class k c then Eps else Fail)"
| "deriv c (Seq r s) =
     (if nullable r then alt (seq (deriv c r) s) (deriv c s) else seq (deriv c r) s)"
| "deriv c (Alt r s) = alt (deriv c r) (deriv c s)"
| "deriv c (Star r) = seq (deriv c r) (Star r)"

definition Plus :: "regex \<Rightarrow> regex" where
  "Plus r = Seq r (Star r)"

definition full_match :: "regex \<Rightarrow> string \<Rightarrow> bool" where
  "full_match r s = nullable (fold deriv s r)"

definition search :: "regex \<Rightarrow> string \<Rightarrow> bool" where
  "search r s = full_match (Seq (Star (Sym AnyCh)) (Seq r (Star (Sym AnyCh)))) s"

text \<open>\<^verbatim>\<open>/^[^\s@]+@[^\s@]+\.[^\s@]+$/\<close> of the client module.\<close>

definition client_email_regex :: regex where
  "client_email_regex =
     Seq (Plus (Sym NonSpaceNonAt))
       (Seq (Sym (Ch CHR ''@''))
         (Seq (Plus (Sym NonSpaceNonAt))
           (Seq (Sym (Ch CHR ''.'')) (Plus (Sym NonSpaceNonAt)))))"

text \<open>\<^verbatim>\<open>/\S+@\S+\.\S+/\<close> of the server module.\<close>

definition server_email_regex :: regex where
  "server_email_regex =
     Seq (Plus (Sym NonSpace))
       (Seq (Sym (Ch CHR ''@''))
         (Seq (Plus (Sym NonSpace))
           (Seq (Sym (Ch CHR ''.'')) (Plus (Sym NonSpace)))))"

text \<open>Decimal digits of a natural number: an array index in a template literal.\<close>

definition digit :: "nat \<Rightarrow> char" where
  "digit n = ''0123456789'' ! (n mod 10)"

fun showNat :: "nat \<Rightarrow> string" where
  "showNat n = (if n < 10 then [digit n] else showNat (n div 10) @ [digit n])"

declare showNat.simps [simp del]

text \<open>
  \<^verbatim>\<open>x.toFixed(2)\<close>: the sign, then the integer \<open>n\<close> nearest to \<open>100 * |x|\<close> (the larger
  one of two) written with a point before its last two digits. From \<open>10^21\<close> on the
  method returns what \<^verbatim>\<open>String(x)\<close> returns, which is the parameter \<open>numberToString\<close>.
\<close>

definition toFixed2 :: "(rat \<Rightarrow> string) \<Rightarrow> rat \<Rightarrow> string" where
  "toFixed2 numberToString x =
     (let s = (if x < 0 then [CHR ''-''] else []);
          a = \<bar>x\<bar>
      in if a \<ge> 10 ^ 21 then s @ numberToString a
         else (let n = nat \<lfloor>a * 100 + 1 / 2\<rfloor>
               in s @ showNat (n div 100) @ [CHR ''.'', digit (n div 10), digit n]))"

text \<open>The two result arrays of a validator, and \<^verbatim>\<open>push\<close> on each.\<close>

type_synonym acc = "OrderValidationError list \<times> OrderValidationError list"

definition push_error :: "OrderValidationError \<Rightarrow> acc \<Rightarrow> acc" where
  "push_error e a = (fst a @ [e], snd a)"

definition push_warning :: "OrderValidationError \<Rightarrow> acc \<Rightarrow> acc" where
  "push_warning w a = (fst a, snd a @ [w])"

definition result_of :: "acc \<Rightarrow> OrderValidationResult" where
  "result_of a = \<lparr>isValid = (length (fst a) = 0), errors = fst a, warnings = snd a\<rparr>"

text \<open>\<^verbatim>\<open>xs.forEach((item, index) => ...)\<close>\<close>

definition forEach :: "'a list \<Rightarrow> ('a \<Rightarrow> nat \<Rightarrow> 's \<Rightarrow> 's) \<Rightarrow> 's \<Rightarrow> 's" where
  "forEach xs f = fold (\<lambda>(i, x). f x i) (enumerate 0 xs)"

subsection \<open>JavaScript numbers: sums and differences of doubles\<close>

text \<open>
  The result of \<^verbatim>\<open>+\<close> and \<^verbatim>\<open>-\<close> on two numbers is the double nearest to the exact
  result (IEEE 754 binary64, round to nearest, ties to even), or an infinity on overflow.
  \<open>round_to_double x\<close> is that double for the exact result \<open>x\<close>:
  \<^item> \<open>floor_log2 a\<close> is the exponent \<open>E\<close> with \<open>2^E \<le> a < 2^(E+1)\<close>, for \<open>a > 0\<close>;
  \<^item> the spacing of the doubles around \<open>a\<close> is \<open>2^e\<close> with \<open>e = max E (-1022) - 52\<close>
    (53 significant bits; the subnormal doubles are spaced \<open>2^(-1074)\<close>);
  \<^item> \<open>a\<close> is rounded to the nearest multiple of \<open>2^e\<close>, to the even one of two;
  \<^item> a rounded magnitude of \<open>2^1024\<close> or more is an infinity.
  Comparisons and \<^verbatim>\<open>Math.abs\<close> are exact. The two zeros are one value here (no
  comparison tells them apart).
\<close>

datatype number = Finite rat | PosInfinity | NegInfinity | NaN

fun bit_length :: "nat \<Rightarrow> nat" where
  "bit_length n = (if n = 0 then 0 else Suc (bit_length (n div 2)))"

declare bit_length.simps [simp del]

definition floor_log2 :: "rat \<Rightarrow> int" where
  "floor_log2 a =
     (if a \<ge> 1 then int (bit_length (nat \<lfloor>a\<rfloor>)) - 1
      else - int (bit_length (nat (\<lceil>1 / a\<rceil> - 1))))"

definition pow2 :: "int \<Rightarrow> rat" where
  "pow2 e = (if e \<ge> 0 then 2 ^ nat e else 1 / 2 ^ nat (- e))"

definition round_half_even :: "rat \<Rightarrow> int" where
  "round_half_even q =
     (let f = \<lfloor>q\<rfloor>; r = q - of_int f
      in if r < 1 / 2 then f
         else if r > 1 / 2 then f + 1
         else if even f then f else f + 1)"

definition round_to_double :: "rat \<Rightarrow> number" where
  "round_to_double x =
     (if x = 0 then Finite 0
      else (let a = \<bar>x\<bar>;
                e = max (floor_log2 a) (- 1022) - 52;
                r = of_int (round_half_even (a / pow2 e)) * pow2 e
            in if r \<ge> 2 ^ 1024 then (if x > 0 then PosInfinity else NegInfinity)
               else Finite (if x < 0 then - r else r)))"

fun number_neg :: "number \<Rightarrow> number" where
  "number_neg (Finite a) = Finite (- a)"
| "number_neg PosInfinity = NegInfinity"
| "number_neg NegInfinity = PosInfinity"
| "number_neg NaN = NaN"

fun number_add :: "number \<Rightarrow> number \<Rightarrow> number" where
  "number_add (Finite a) (Finite b) = round_to_double (a + b)"
| "number_add NaN y = NaN"
| "number_add x NaN = NaN"
| "number_add PosInfinity NegInfinity = NaN"
| "number_add NegInfinity PosInfinity = NaN"
| "number_add PosInfinity y = PosInfinity"
| "number_add NegInfinity y = NegInfinity"
| "number_add x PosInfinity = PosInfinity"
| "number_add x NegInfinity = NegInfinity"

definition number_sub :: "number \<Rightarrow> number \<Rightarrow> number" where
  "number_sub x y = number_add x (number_neg y)"

fun number_abs :: "number \<Rightarrow> number" where
  "number_abs (Finite a) = Finite \<bar>a\<bar>"
| "number_abs PosInfinity = PosInfinity"
| "number_abs NegInfinity = PosInfinity"
| "number_abs NaN = NaN"

text \<open>\<^verbatim>\<open>x > y\<close>\<close>

fun number_gt :: "number \<Rightarrow> number \<Rightarrow> bool" where
  "number_gt (Finite a) (Finite b) = (a > b)"
| "number_gt NaN y = False"
| "number_gt x NaN = False"
| "number_gt NegInfinity y = False"
| "number_gt x PosInfinity = False"
| "number_gt PosInfinity y = True"
| "number_gt x NegInfinity = True"

text \<open>
  The literal \<^verbatim>\<open>0.01\<close> denotes the double nearest to one hundredth, which is
  \<open>5764607523034235 / 2^59\<close>, a little above it.
\<close>

definition double_0_01 :: rat where
  "double_0_01 = 5764607523034235 / 576460752303423488"

text \<open>
  \<^verbatim>\<open>x.toFixed(2)\<close> on the result of a sum: a value that is not finite is printed by its
  name.
\<close>

definition number_toFixed2 :: "(rat \<Rightarrow> string) \<Rightarrow> number \<Rightarrow> string" where
  "number_toFixed2 numberToString n =
     (case n of
        Finite x \<Rightarrow> toFixed2 numberToString x
      | PosInfinity \<Rightarrow> ''Infinity''
      | NegInfinity \<Rightarrow> ''-Infinity''
      | NaN \<Rightarrow> ''NaN'')"

subsection \<open>Client module: \<^verbatim>\<open>validateBusinessRules\<close>\<close>

text \<open>
  The client module and the server module each export a function named
  \<^verbatim>\<open>validateBusinessRules\<close>; they are \<open>client_validateBusinessRules\<close> (lines 808-967)
  and \<open>server_validateBusinessRules\<close> (lines 1336-1382) here.
\<close>

definition checkQuantity :: "CartItem \<Rightarrow> nat \<Rightarrow> acc \<Rightarrow> acc" where
  "checkQuantity item index a =
     (let a1 = (if quantity item \<le> 0
                then push_error
                       \<lparr>field = ''cartItems['' @ showNat index @ ''].quantity'',
                        message = ''Quantity must be greater than 0'',
                        code = ''INVALID_QUANTITY'', severity = error\<rparr> a
                else a)
      in if quantity item > 10
         then push_warning
                \<lparr>field = ''cartItems['' @ showNat index @ ''].quantity'',
                 message = ''Large quantity order - please verify'',
                 code = ''LARGE_QUANTITY'', severity = warning\<rparr> a1
         else a1)"

definition checkGuest_client :: "CustomerInfo \<Rightarrow> Address \<Rightarrow> acc \<Rightarrow> acc" where
  "checkGuest_client ci ad a =
     (let a1 = (if blank (full_name ci)
                then push_error \<lparr>field = ''customerInfo.full_name'',
                       message = ''Full name is required'',
                       code = ''MISSING_NAME'', severity = error\<rparr> a
                else a);
          a2 = (if blank (email ci)
                then push_error \<lparr>field = ''customerInfo.email'',
                       message = ''Email is required'',
                       code = ''MISSING_EMAIL'', severity = error\<rparr> a1
                else if \<not> full_match client_email_regex (email ci)
                then push_error \<lparr>field = ''customerInfo.email'',
                       message = ''Invalid email format'',
                       code = ''INVALID_EMAIL'', severity = error\<rparr> a1
                else a1);
          a3 = (if blank (phone ci)
                then push_error \<lparr>field = ''customerInfo.phone'',
                       message = ''Phone number is required'',
                       code = ''MISSING_PHONE'', severity = error\<rparr> a2
                else a2);
          a4 = (if blank (street_address ad)
                then push_error \<lparr>field = ''address.street_address'',
                       message = ''Street address is required'',
                       code = ''MISSING_ADDRESS'', severity = error\<rparr> a3
                else a3);
          a5 = (if blank (city ad)
                then push_error \<lparr>field = ''address.city'',
                       message = ''City is required'',
                       code = ''MISSING_CITY'', severity = error\<rparr> a4
                else a4);
          a6 = (if blank (province ad)
                then push_error \<lparr>field = ''address.province'',
                       message = ''Province is required'',
                       code = ''MISSING_PROVINCE'', severity = error\<rparr> a5
                else a5)
      in if blank (postal_code ad)
         then push_error \<lparr>field = ''address.postal_code'',
                message = ''Postal code is required'',
                code = ''MISSING_POSTAL_CODE'', severity = error\<rparr> a6
         else a6)"

definition checkAuthenticated_client :: "string \<Rightarrow> string \<Rightarrow> acc \<Rightarrow> acc" where
  "checkAuthenticated_client uid aid a =
     (let a1 = (if blank uid
                then push_error \<lparr>field = ''userId'', message = ''User ID is required'',
                       code = ''MISSING_USER_ID'', severity = error\<rparr> a
                else a)
      in if blank aid
         then push_error \<lparr>field = ''addressId'', message = ''Address ID is required'',
                code = ''MISSING_ADDRESS_ID'', severity = error\<rparr> a1
         else a1)"

definition client_validateBusinessRules :: "OrderData \<Rightarrow> OrderValidationResult" where
  "client_validateBusinessRules orderData =
     (let a0 = ([], []);
          a1 = (if length (cartItems orderData) = 0
                then push_error \<lparr>field = ''cartItems'', message = ''Cart cannot be empty'',
                       code = ''EMPTY_CART'', severity = error\<rparr> a0
                else a0);
          a2 = forEach (cartItems orderData) checkQuantity a1;
          a3 = (if total orderData \<le> 0
                then push_error \<lparr>field = ''total'',
                       message = ''Order total must be greater than 0'',
                       code = ''INVALID_TOTAL'', severity = error\<rparr> a2
                else a2);
          a4 = (if deliveryMethod orderData = []
                then push_error \<lparr>field = ''deliveryMethod'',
                       message = ''Delivery method is required'',
                       code = ''MISSING_DELIVERY_METHOD'', severity = error\<rparr> a3
                else a3);
          a5 = (case shape orderData of
                  Guest ci ad \<Rightarrow> checkGuest_client ci ad a4
                | Authenticated uid aid \<Rightarrow> a4);
          a6 = (case shape orderData of
                  Authenticated uid aid \<Rightarrow> checkAuthenticated_client uid aid a5
                | Guest ci ad \<Rightarrow> a5)
      in result_of a6)"

subsection \<open>Server module: \<^verbatim>\<open>validateDatabaseConstraints\<close>\<close>

text \<open>
  The remote collaborators of the server module are a \<open>db_env\<close>. Each awaited call either
  rejects (\<open>Inl\<close>) or resolves (\<open>Inr\<close>); a query ending in \<^verbatim>\<open>.single()\<close> resolves to an
  object with \<^verbatim>\<open>data\<close> and \<^verbatim>\<open>error\<close>.
  \<^item> \<open>products_single id\<close>: the product row with that id;
  \<^item> \<open>auth_getUser\<close>: the id of \<^verbatim>\<open>user.user\<close>, \<open>None\<close> when it is null;
  \<^item> \<open>addresses_single id user_id\<close>: the address row with that id and owner;
  \<^item> \<open>rpc_validate_discount_code code user subtotal\<close>: the remote procedure;
  \<^item> \<open>numberToString\<close>: how a template literal prints a number.
  The client object itself (\<^verbatim>\<open>createClient()\<close>, whose module is not part of the
  sources) is taken as given. The \<^verbatim>\<open>console.error\<close> lines of this module are left out.
\<close>

record Product =
  name :: string
  product_price :: rat
  is_available :: bool
  stock_quantity :: "rat option"

record 'a single_response =
  data :: "'a option"
  db_error :: "string option"

record discount_data =
  valid :: bool
  discount_error :: "string option"
  discount_amount :: "rat option"

record discount_validation =
  dv_isValid :: bool
  dv_error :: "string option"
  dv_discountAmount :: "rat option"

record db_env =
  products_single :: "string \<Rightarrow> exn + Product single_response"
  auth_getUser :: "exn + string option"
  addresses_single :: "string \<Rightarrow> string \<Rightarrow> exn + (string \<times> string) single_response"
  rpc_validate_discount_code ::
    "string \<Rightarrow> string option \<Rightarrow> rat \<Rightarrow> exn + discount_data single_response"
  numberToString :: "rat \<Rightarrow> string"

text \<open>
  The body of the \<^verbatim>\<open>try\<close> block either reaches its end or throws; in both cases the
  arrays hold what was pushed until then.
\<close>

datatype attempt = Completed acc | Threw exn acc

definition and_then :: "attempt \<Rightarrow> (acc \<Rightarrow> attempt) \<Rightarrow> attempt" where
  "and_then m f = (case m of Completed a \<Rightarrow> f a | Threw x a \<Rightarrow> Threw x a)"

text \<open>\<^verbatim>\<open>for (const item of xs) { ... }\<close> with a body that may throw.\<close>

fun forOf :: "'a list \<Rightarrow> ('a \<Rightarrow> acc \<Rightarrow> attempt) \<Rightarrow> acc \<Rightarrow> attempt" where
  "forOf [] f a = Completed a"
| "forOf (x # xs) f a = and_then (f x a) (forOf xs f)"

definition quoted :: "string \<Rightarrow> string" where
  "quoted s = [CHR 0x22] @ s @ [CHR 0x22]"

definition validateDiscountCode ::
  "db_env \<Rightarrow> string \<Rightarrow> string option \<Rightarrow> rat \<Rightarrow> discount_validation" where
  "validateDiscountCode env code_text user_uuid order_total =
     (case rpc_validate_discount_code env code_text user_uuid order_total of
        Inl x \<Rightarrow>
          \<lparr>dv_isValid = False, dv_error = Some ''Failed to validate discount code'',
           dv_discountAmount = None\<rparr>
      | Inr r \<Rightarrow>
          if db_error r \<noteq> None
          then \<lparr>dv_isValid = False, dv_error = Some ''Failed to validate discount code'',
                dv_discountAmount = None\<rparr>
          else (case data r of
                  None \<Rightarrow>
                    \<lparr>dv_isValid = False,
                     dv_error = Some ''Failed to validate discount code'',
                     dv_discountAmount = None\<rparr>
                | Some dd \<Rightarrow>
                    \<lparr>dv_isValid = valid dd, dv_error = discount_error dd,
                     dv_discountAmount = discount_amount dd\<rparr>))"

definition checkDeliveryMethod :: "OrderData \<Rightarrow> acc \<Rightarrow> acc" where
  "checkDeliveryMethod orderData a =
     (if \<not> array_includes [''standard'', ''express'', ''collection'']
              (deliveryMethod orderData)
      then push_error
             \<lparr>field = ''deliveryMethod'',
              message =
                ''Invalid delivery method. Must be one of: standard, express, collection'',
              code = ''INVALID_DELIVERY_METHOD'', severity = error\<rparr> a
      else a)"

definition checkProduct :: "db_env \<Rightarrow> CartItem \<Rightarrow> acc \<Rightarrow> attempt" where
  "checkProduct env item a =
     (case products_single env (product_id item) of
        Inl x \<Rightarrow> Threw x a
      | Inr r \<Rightarrow>
          (case (if db_error r \<noteq> None then None else data r) of
             None \<Rightarrow>
               Completed (push_error
                 \<lparr>field = ''cartItems'',
                  message = ''Product with ID '' @ product_id item @ '' not found'',
                  code = ''PRODUCT_NOT_FOUND'', severity = error\<rparr> a)
           | Some product \<Rightarrow>
               (let a1 = (if \<not> is_available product
                          then push_error
                                 \<lparr>field = ''cartItems'',
                                  message = ''Product '' @ quoted (name product)
                                            @ '' is not available'',
                                  code = ''PRODUCT_UNAVAILABLE'', severity = error\<rparr> a
                          else a);
                    a2 = (case stock_quantity product of
                            None \<Rightarrow> a1
                          | Some stock \<Rightarrow>
                              if stock < quantity item
                              then push_error
                                     \<lparr>field = ''cartItems'',
                                      message = ''Insufficient stock for ''
                                        @ quoted (name product)
                                        @ ''. Available: '' @ numberToString env stock
                                        @ '', Requested: ''
                                        @ numberToString env (quantity item),
                                      code = ''INSUFFICIENT_STOCK'', severity = error\<rparr> a1
                              else a1);
                    a3 = (if number_gt
                               (number_abs (number_sub (Finite (product_price product))
                                                       (Finite (price item))))
                               (Finite double_0_01)
                          then push_warning
                                 \<lparr>field = ''cartItems'',
                                  message = ''Price for '' @ quoted (name product)
                                    @ '' has changed. Current: R''
                                    @ numberToString env (product_price product)
                                    @ '', Cart: R'' @ numberToString env (price item),
                                  code = ''PRICE_CHANGED'', severity = warning\<rparr> a2
                          else a2)
                in Completed
                     (if quantity item \<le> 0
                      then push_error
                             \<lparr>field = ''cartItems'',
                              message = ''Invalid quantity for '' @ quoted (name product)
                                        @ ''. Must be greater than 0'',
                              code = ''INVALID_QUANTITY'', severity = error\<rparr> a3
                      else a3))))"

definition checkCart :: "db_env \<Rightarrow> OrderData \<Rightarrow> acc \<Rightarrow> attempt" where
  "checkCart env orderData a =
     (if length (cartItems orderData) = 0
      then Completed (push_error
             \<lparr>field = ''cartItems'', message = ''Order must contain at least one item'',
              code = ''EMPTY_CART'', severity = error\<rparr> a)
      else forOf (cartItems orderData) (checkProduct env) a)"

definition checkGuest :: "CustomerInfo \<Rightarrow> Address \<Rightarrow> acc \<Rightarrow> acc" where
  "checkGuest ci ad a =
     (let a1 = (if blank (full_name ci)
                then push_error \<lparr>field = ''customerInfo.full_name'',
                       message = ''Full name is required for guest orders'',
                       code = ''GUEST_NAME_REQUIRED'', severity = error\<rparr> a
                else a);
          a2 = (if blank (email ci)
                then push_error \<lparr>field = ''customerInfo.email'',
                       message = ''Email is required for guest orders'',
                       code = ''GUEST_EMAIL_REQUIRED'', severity = error\<rparr> a1
                else if \<not> search server_email_regex (email ci)
                then push_error \<lparr>field = ''customerInfo.email'',
                       message = ''Please enter a valid email address'',
                       code = ''INVALID_EMAIL_FORMAT'', severity = error\<rparr> a1
                else a1);
          a3 = (if blank (street_address ad)
                then push_error \<lparr>field = ''address.street_address'',
                       message = ''Street address is required'',
                       code = ''ADDRESS_REQUIRED'', severity = error\<rparr> a2
                else a2);
          a4 = (if blank (city ad)
                then push_error \<lparr>field = ''address.city'',
                       message = ''City is required'',
                       code = ''CITY_REQUIRED'', severity = error\<rparr> a3
                else a3);
          a5 = (if blank (province ad)
                then push_error \<lparr>field = ''address.province'',
                       message = ''Province is required'',
                       code = ''PROVINCE_REQUIRED'', severity = error\<rparr> a4
                else a4)
      in if blank (postal_code ad)
         then push_error \<lparr>field = ''address.postal_code'',
                message = ''Postal code is required'',
                code = ''POSTAL_CODE_REQUIRED'', severity = error\<rparr> a5
         else a5)"

definition checkAuthenticated :: "db_env \<Rightarrow> string \<Rightarrow> string \<Rightarrow> acc \<Rightarrow> attempt" where
  "checkAuthenticated env uid aid a =
     (case auth_getUser env of
        Inl x \<Rightarrow> Threw x a
      | Inr user \<Rightarrow>
          (let a1 = (if user = None \<or> user \<noteq> Some uid
                     then push_error
                            \<lparr>field = ''userId'', message = ''Invalid user authentication'',
                             code = ''INVALID_USER'', severity = error\<rparr> a
                     else a)
           in case addresses_single env aid uid of
                Inl x \<Rightarrow> Threw x a1
              | Inr r \<Rightarrow>
                  Completed
                    (if db_error r \<noteq> None \<or> data r = None
                     then push_error
                            \<lparr>field = ''addressId'', message = ''Invalid delivery address'',
                             code = ''INVALID_ADDRESS'', severity = error\<rparr> a1
                     else a1)))"

definition checkDiscount :: "db_env \<Rightarrow> OrderData \<Rightarrow> acc \<Rightarrow> acc" where
  "checkDiscount env orderData a =
     (case discountCode orderData of
        None \<Rightarrow> a
      | Some dc \<Rightarrow>
          if dc = [] then a
          else (let uid = (case shape orderData of
                             Authenticated u ad \<Rightarrow> Some u
                           | Guest ci ad \<Rightarrow> None);
                    discountValidation =
                      validateDiscountCode env dc uid (subtotal orderData)
                in if \<not> dv_isValid discountValidation
                   then push_error
                          \<lparr>field = ''discountCode'',
                           message =
                             (case dv_error discountValidation of
                                None \<Rightarrow> ''Invalid discount code''
                              | Some m \<Rightarrow> if m = [] then ''Invalid discount code'' else m),
                           code = ''INVALID_DISCOUNT'', severity = error\<rparr> a
                   else a))"

definition checkAmounts :: "OrderData \<Rightarrow> acc \<Rightarrow> acc" where
  "checkAmounts orderData a =
     (let a1 = (if total orderData \<le> 0
                then push_error
                       \<lparr>field = ''total'', message = ''Order total must be greater than 0'',
                        code = ''INVALID_TOTAL'', severity = error\<rparr> a
                else a)
      in if deliveryFee orderData < 0
         then push_error
                \<lparr>field = ''deliveryFee'', message = ''Delivery fee cannot be negative'',
                 code = ''INVALID_DELIVERY_FEE'', severity = error\<rparr> a1
         else a1)"

text \<open>
  \<^verbatim>\<open>orderData.subtotal + orderData.deliveryFee - (orderData.discountAmount || 0)\<close>: the
  sum is rounded, then the difference is.
\<close>

definition expectedTotal :: "OrderData \<Rightarrow> number" where
  "expectedTotal orderData =
     number_sub
       (number_add (Finite (subtotal orderData)) (Finite (deliveryFee orderData)))
       (Finite (case discountAmount orderData of None \<Rightarrow> 0 | Some x \<Rightarrow> x))"

definition checkTotal :: "db_env \<Rightarrow> OrderData \<Rightarrow> acc \<Rightarrow> acc" where
  "checkTotal env orderData a =
     (if number_gt
           (number_abs (number_sub (Finite (total orderData)) (expectedTotal orderData)))
           (Finite double_0_01)
      then push_error
             \<lparr>field = ''total'',
              message = ''Order total calculation error. Expected: R''
                @ number_toFixed2 (numberToString env) (expectedTotal orderData)
                @ '', Received: R'' @ toFixed2 (numberToString env) (total orderData),
              code = ''TOTAL_CALCULATION_ERROR'', severity = error\<rparr> a
      else a)"

text \<open>The \<^verbatim>\<open>try\<close> block, lines 1056-1285.\<close>

definition try_block :: "db_env \<Rightarrow> OrderData \<Rightarrow> attempt" where
  "try_block env orderData =
     and_then (checkCart env orderData (checkDeliveryMethod orderData ([], []))) (\<lambda>a.
     and_then (case shape orderData of
                 Guest ci ad \<Rightarrow> Completed (checkGuest ci ad a)
               | Authenticated uid aid \<Rightarrow> Completed a) (\<lambda>a.
     and_then (case shape orderData of
                 Authenticated uid aid \<Rightarrow> checkAuthenticated env uid aid a
               | Guest ci ad \<Rightarrow> Completed a) (\<lambda>a.
     Completed (checkTotal env orderData
                  (checkAmounts orderData (checkDiscount env orderData a))))))"

definition validateDatabaseConstraints :: "db_env \<Rightarrow> OrderData \<Rightarrow> OrderValidationResult" where
  "validateDatabaseConstraints env orderData =
     (case try_block env orderData of
        Completed a \<Rightarrow> result_of a
      | Threw x a \<Rightarrow>
          result_of (push_error
            \<lparr>field = ''general'',
             message = ''An error occurred during validation. Please try again.'',
             code = ''VALIDATION_ERROR'', severity = error\<rparr> a))"

subsection \<open>Server module: \<^verbatim>\<open>validateBusinessRules\<close> and \<^verbatim>\<open>validateOrder\<close>\<close>

definition minimumOrderValue :: rat where
  "minimumOrderValue = 50"

definition maximumOrderValue :: rat where
  "maximumOrderValue = 10000"

definition maxQuantityPerItem :: rat where
  "maxQuantityPerItem = 10"

definition checkMaxQuantity :: "CartItem \<Rightarrow> acc \<Rightarrow> acc" where
  "checkMaxQuantity item a =
     (if quantity item > maxQuantityPerItem
      then push_error
             \<lparr>field = ''cartItems'', message = ''Maximum quantity per item is 10'',
              code = ''EXCESSIVE_QUANTITY'', severity = error\<rparr> a
      else a)"

definition server_validateBusinessRules :: "OrderData \<Rightarrow> OrderValidationResult" where
  "server_validateBusinessRules orderData =
     (let a0 = ([], []);
          a1 = (if subtotal orderData < minimumOrderValue
                then push_warning
                       \<lparr>field = ''subtotal'',
                        message = ''Orders under R50 may have extended processing times'',
                        code = ''LOW_ORDER_VALUE'', severity = warning\<rparr> a0
                else a0);
          a2 = (if total orderData > maximumOrderValue
                then push_error
                       \<lparr>field = ''total'',
                        message = ''Order total exceeds maximum allowed amount of R10000'',
                        code = ''EXCESSIVE_ORDER_VALUE'', severity = error\<rparr> a1
                else a1);
          a3 = fold checkMaxQuantity (cartItems orderData) a2
      in result_of a3)"

text \<open>
  \<^verbatim>\<open>validateOrder\<close> awaits both results and merges them; the business rules are those
  of the server module.
\<close>

definition validateOrder :: "db_env \<Rightarrow> OrderData \<Rightarrow> OrderValidationResult" where
  "validateOrder env orderData =
     (let dbValidation = validateDatabaseConstraints env orderData;
          businessValidation = server_validateBusinessRules orderData
      in \<lparr>isValid = (isValid dbValidation \<and> isValid businessValidation),
          errors = errors dbValidation @ errors businessValidation,
          warnings = warnings dbValidation @ warnings businessValidation\<rparr>)"

subsection \<open>Inputs of the test suite\<close>

text \<open>
  The drafts of \<^verbatim>\<open>src/tests/order-validation.test.ts\<close> and the client that its
  \<^verbatim>\<open>jest.mock\<close> installs: every \<^verbatim>\<open>.single()\<close> resolves to \<^verbatim>\<open>{ data: null, error: null }\<close>,
  and the mock has neither \<^verbatim>\<open>auth\<close> nor \<^verbatim>\<open>rpc\<close>, so a call of either throws a
  \<^verbatim>\<open>TypeError\<close>. \<open>show_integer\<close> prints the non-negative integers below \<open>10^21\<close> as
  \<^verbatim>\<open>String\<close> does. A decimal literal of the tests is the double that it denotes:
  299.99 is \<open>1319369972866089 / 2^42\<close>, 599.98 is \<open>1319369972866089 / 2^41\<close>, 698.98 is
  \<open>1537073275165737 / 2^41\<close>, 499.99 is \<open>2198979275086889 / 2^42\<close>, 564.99 is
  \<open>2484852298308649 / 2^42\<close> and 999.99 is \<open>4398002530638889 / 2^42\<close>.
\<close>

definition show_integer :: "rat \<Rightarrow> string" where
  "show_integer x = showNat (nat \<lfloor>x\<rfloor>)"

definition jest_mock :: db_env where
  "jest_mock =
     \<lparr>products_single = (\<lambda>pid. Inr \<lparr>data = None, db_error = None\<rparr>),
      auth_getUser = Inl TypeError,
      addresses_single = (\<lambda>aid uid. Inr \<lparr>data = None, db_error = None\<rparr>),
      rpc_validate_discount_code = (\<lambda>c u t. Inl TypeError),
      numberToString = show_integer\<rparr>"

definition validGuestOrder :: OrderData where
  "validGuestOrder =
     \<lparr>shape =
        Guest \<lparr>full_name = ''John Doe'', email = ''john@example.com'',
                phone = ''+27123456789''\<rparr>
              \<lparr>street_address = ''123 Main St'', city = ''Cape Town'',
                province = ''Western Cape'', postal_code = ''8001'',
                address_phone = ''+27123456789''\<rparr>,
      cartItems = [\<lparr>product_id = ''prod-1'', quantity = 2, price = 1319369972866089 / 4398046511104\<rparr>],
      deliveryMethod = ''courier_guy'',
      deliveryFee = 99,
      subtotal = 1319369972866089 / 2199023255552,
      discountCode = None,
      discountAmount = None,
      total = 1537073275165737 / 2199023255552\<rparr>"

definition validAuthOrder :: OrderData where
  "validAuthOrder =
     \<lparr>shape = Authenticated ''user-123'' ''addr-456'',
      cartItems = [\<lparr>product_id = ''prod-2'', quantity = 1, price = 2198979275086889 / 4398046511104\<rparr>],
      deliveryMethod = ''pudo'',
      deliveryFee = 65,
      subtotal = 2198979275086889 / 4398046511104,
      discountCode = None,
      discountAmount = None,
      total = 2484852298308649 / 4398046511104\<rparr>"

definition highValueOrder :: OrderData where
  "highValueOrder =
     validGuestOrder
       \<lparr>cartItems := [\<lparr>product_id = ''prod-1'', quantity = 1, price = 15000\<rparr>],
        subtotal := 15000,
        total := 15099\<rparr>"

text \<open>The draft of the test \<^verbatim>\<open>should reject order exceeding maximum quantity\<close>.\<close>

definition quantity15Order :: OrderData where
  "quantity15Order =
     validGuestOrder
       \<lparr>cartItems := [\<lparr>product_id = ''prod-1'', quantity = 15, price = 1319369972866089 / 4398046511104\<rparr>]\<rparr>"

text \<open>
  Drafts at the tolerance of the total. \<open>double_29_01\<close> and \<open>double_100_01\<close> are the
  doubles that the literals \<^verbatim>\<open>29.01\<close> and \<^verbatim>\<open>100.01\<close> denote. \<open>stocked_env\<close> is a client
  whose product lookups find an available product at 29.01; \<open>roundingOrder\<close> is a guest
  draft with subtotal 29.01, fee 99 and total 128; \<open>borderlineOrder\<close> is one with subtotal
  100, fee 0 and total 100.01.
\<close>

definition double_29_01 :: rat where
  "double_29_01 = 8165589074376131 / 281474976710656"

definition double_100_01 :: rat where
  "double_100_01 = 7037578105208177 / 70368744177664"

definition stocked_env :: db_env where
  "stocked_env =
     jest_mock
       \<lparr>products_single :=
          (\<lambda>pid. Inr \<lparr>data = Some \<lparr>name = ''Scarf'', product_price = double_29_01,
                                    is_available = True, stock_quantity = None\<rparr>,
                       db_error = None\<rparr>)\<rparr>"

definition roundingOrder :: OrderData where
  "roundingOrder =
     validGuestOrder
       \<lparr>cartItems := [\<lparr>product_id = ''prod-1'', quantity = 1, price = double_29_01\<rparr>],
        deliveryMethod := ''standard'',
        subtotal := double_29_01,
        total := 128\<rparr>"

definition borderlineOrder :: OrderData where
  "borderlineOrder =
     validGuestOrder
       \<lparr>cartItems := [\<lparr>product_id = ''prod-1'', quantity = 1, price = 100\<rparr>],
        deliveryFee := 0,
        subtotal := 100,
        total := double_100_01\<rparr>"

text \<open>
  A logger in a process with no \<^verbatim>\<open>navigator\<close> and a table that rejects every insert, and
  one in a browser whose inserts succeed.
\<close>

definition failing_logger_env :: logger_env where
  "failing_logger_env =
     \<lparr>now_iso = ''2024-01-01T00:00:00.000Z'',
      development = False,
      navigator_userAgent = Inl ReferenceError,
      createClient_server = Inl (Rejected ''cookies''),
      insert_audit_log = (\<lambda>entry. Inl (Rejected ''network''))\<rparr>"

definition browser_logger_env :: logger_env where
  "browser_logger_env =
     \<lparr>now_iso = ''2024-01-01T00:00:00.000Z'',
      development = False,
      navigator_userAgent = Inr ''jest'',
      createClient_server = Inr (),
      insert_audit_log = (\<lambda>entry. Inr None)\<rparr>"

definition test_logger :: OrderAuditLogger where
  "test_logger = \<lparr>sessionId = ''session_1_abc''\<rparr>"

subsection \<open>Auxiliary notions of the proofs\<close>

text \<open>The error codes that the server module pushes.\<close>

definition server_error_codes :: "string list" where
  "server_error_codes =
     [''INVALID_DELIVERY_METHOD'', ''EMPTY_CART'', ''PRODUCT_NOT_FOUND'',
      ''PRODUCT_UNAVAILABLE'', ''INSUFFICIENT_STOCK'', ''INVALID_QUANTITY'',
      ''GUEST_NAME_REQUIRED'', ''GUEST_EMAIL_REQUIRED'', ''INVALID_EMAIL_FORMAT'',
      ''ADDRESS_REQUIRED'', ''CITY_REQUIRED'', ''PROVINCE_REQUIRED'',
      ''POSTAL_CODE_REQUIRED'', ''INVALID_USER'', ''INVALID_ADDRESS'', ''INVALID_DISCOUNT'',
      ''INVALID_TOTAL'', ''INVALID_DELIVERY_FEE'', ''TOTAL_CALCULATION_ERROR'',
      ''VALIDATION_ERROR'', ''EXCESSIVE_ORDER_VALUE'', ''EXCESSIVE_QUANTITY'']"

text \<open>
  \<open>grows S a b\<close>: the errors of \<open>b\<close> are those of \<open>a\<close> followed by errors whose codes are
  in \<open>S\<close>. Nothing is ever removed from the array of errors.
\<close>

definition grows :: "string set \<Rightarrow> acc \<Rightarrow> acc \<Rightarrow> bool" where
  "grows S a b = (\<exists>es. fst b = fst a @ es \<and> (\<forall>e\<in>set es. code e \<in> S))"

fun acc_of :: "attempt \<Rightarrow> acc" where
  "acc_of (Completed a) = a"
| "acc_of (Threw x a) = a"

text \<open>Every remote lookup that the draft causes resolves.\<close>

definition lookups_resolve :: "db_env \<Rightarrow> OrderData \<Rightarrow> bool" where
  "lookups_resolve env d =
     ((\<forall>item\<in>set (cartItems d). \<not> isl (products_single env (product_id item)))
      \<and> (case shape d of
            Authenticated uid aid \<Rightarrow>
              \<not> isl (auth_getUser env) \<and> \<not> isl (addresses_single env aid uid)
          | Guest ci ad \<Rightarrow> True))"

text \<open>The error codes that can be in the array when a lookup throws.\<close>

definition remote_error_codes :: "string list" where
  "remote_error_codes =
     [''INVALID_DELIVERY_METHOD'', ''EMPTY_CART'', ''PRODUCT_NOT_FOUND'',
      ''PRODUCT_UNAVAILABLE'', ''INSUFFICIENT_STOCK'', ''INVALID_QUANTITY'',
      ''GUEST_NAME_REQUIRED'', ''GUEST_EMAIL_REQUIRED'', ''INVALID_EMAIL_FORMAT'',
      ''ADDRESS_REQUIRED'', ''CITY_REQUIRED'', ''PROVINCE_REQUIRED'',
      ''POSTAL_CODE_REQUIRED'', ''INVALID_USER'', ''INVALID_ADDRESS'']"

text \<open>
  What \<open>client_validateBusinessRules\<close> does after the loop over the items.
\<close>

definition client_tail :: "OrderData \<Rightarrow> acc \<Rightarrow> acc" where
  "client_tail d a2 =
     (let a3 = (if total d \<le> 0
                then push_error \<lparr>field = ''total'',
                       message = ''Order total must be greater than 0'',
                       code = ''INVALID_TOTAL'', severity = error\<rparr> a2
                else a2);
          a4 = (if deliveryMethod d = []
                then push_error \<lparr>field = ''deliveryMethod'',
                       message = ''Delivery method is required'',
                       code = ''MISSING_DELIVERY_METHOD'', severity = error\<rparr> a3
                else a3);
          a5 = (case shape d of
                  Guest ci ad \<Rightarrow> checkGuest_client ci ad a4
                | Authenticated uid aid \<Rightarrow> a4)
      in (case shape d of
            Authenticated uid aid \<Rightarrow> checkAuthenticated_client uid aid a5
          | Guest ci ad \<Rightarrow> a5))"

section \<open>Properties\<close>

subsection \<open>Basic facts\<close>

lemma fst_push_error [simp]: "fst (push_error e a) = fst a @ [e]"
  by (simp add: push_error_def)

lemma snd_push_error [simp]: "snd (push_error e a) = snd a"
  by (simp add: push_error_def)

lemma fst_push_warning [simp]: "fst (push_warning w a) = fst a"
  by (simp add: push_warning_def)

lemma snd_push_warning [simp]: "snd (push_warning w a) = snd a @ [w]"
  by (simp add: push_warning_def)

lemma result_of_simps [simp]:
  "isValid (result_of a) = (fst a = [])"
  "errors (result_of a) = fst a"
  "warnings (result_of a) = snd a"
  by (simp_all add: result_of_def)

lemma some_iff: "some xs p = (\<exists>x\<in>set xs. p x)"
  by (simp add: some_def list_ex_iff)

subsection \<open>The rounding to doubles\<close>

text \<open>
  \<open>floor_log2\<close> is the binary exponent, and \<open>round_to_double\<close> returns a multiple of the
  spacing \<open>2^e\<close> that is at most half a spacing away from the exact value.
\<close>

lemma bit_length_upper: "n < 2 ^ bit_length n"
proof (induction n rule: bit_length.induct)
  case (1 n)
  show ?case
  proof (cases "n = 0")
    case True
    then show ?thesis by (simp add: bit_length.simps)
  next
    case False
    with 1 have "n div 2 < 2 ^ bit_length (n div 2)" by simp
    then have "n < 2 * 2 ^ bit_length (n div 2)" by linarith
    with False show ?thesis by (simp add: bit_length.simps [of n])
  qed
qed

lemma bit_length_lower: "0 < n \<Longrightarrow> 2 ^ (bit_length n - 1) \<le> n"
proof (induction n rule: bit_length.induct)
  case (1 n)
  show ?case
  proof (cases "n div 2 = 0")
    case True
    with 1 have "n = 1" by linarith
    then show ?thesis by (simp add: bit_length.simps)
  next
    case False
    with 1 have ih: "2 ^ (bit_length (n div 2) - 1) \<le> n div 2" by simp
    from False have pos: "0 < bit_length (n div 2)"
      by (simp add: bit_length.simps [of "n div 2"])
    have "bit_length n = Suc (bit_length (n div 2))"
      using 1 by (simp add: bit_length.simps [of n])
    then have "(2::nat) ^ (bit_length n - 1) = 2 * 2 ^ (bit_length (n div 2) - 1)"
      using pos by (cases "bit_length (n div 2)") simp_all
    also have "\<dots> \<le> 2 * (n div 2)" using ih by simp
    also have "\<dots> \<le> n" by simp
    finally show ?thesis .
  qed
qed

lemma bit_length_pos: "0 < n \<Longrightarrow> 0 < bit_length n"
  by (simp add: bit_length.simps [of n])

lemma pow2_nonneg_exp: "pow2 (int k) = 2 ^ k"
  by (simp add: pow2_def)

lemma pow2_neg_exp: "pow2 (- int k) = 1 / 2 ^ k"
  by (cases "k = 0") (simp_all add: pow2_def)

lemma floor_log2_bounds:
  assumes "0 < a"
  shows "pow2 (floor_log2 a) \<le> a" and "a < pow2 (floor_log2 a + 1)"
proof -
  show "pow2 (floor_log2 a) \<le> a"
  proof (cases "1 \<le> a")
    case True
    define n where "n = nat \<lfloor>a\<rfloor>"
    have na: "of_nat n \<le> a" and npos: "0 < n"
      using True by (simp_all add: n_def)
    have E: "floor_log2 a = int (bit_length n - 1)"
      using True bit_length_pos [OF npos] by (simp add: floor_log2_def n_def)
    have "(2::rat) ^ (bit_length n - 1) = of_nat (2 ^ (bit_length n - 1))" by simp
    also have "\<dots> \<le> of_nat n" using bit_length_lower [OF npos] by (simp only: of_nat_le_iff)
    also have "\<dots> \<le> a" by (rule na)
    finally show ?thesis unfolding E pow2_nonneg_exp .
  next
    case False
    define k where "k = nat (\<lceil>1 / a\<rceil> - 1)"
    have b: "1 < 1 / a" using False assms by simp
    then have c2: "2 \<le> \<lceil>1 / a\<rceil>" by linarith
    have E: "floor_log2 a = - int (bit_length k)"
      using False by (simp add: floor_log2_def k_def)
    have "k < 2 ^ bit_length k" by (rule bit_length_upper)
    then have "k + 1 \<le> 2 ^ bit_length k" by simp
    then have "rat_of_nat (k + 1) \<le> of_nat (2 ^ bit_length k)" by (simp only: of_nat_le_iff)
    moreover have "rat_of_nat (k + 1) = of_int \<lceil>1 / a\<rceil>"
    proof -
      have "0 \<le> \<lceil>1 / a\<rceil> - 1" using c2 by linarith
      then have "int k = \<lceil>1 / a\<rceil> - 1" unfolding k_def by (rule nat_0_le)
      then have "int (k + 1) = \<lceil>1 / a\<rceil>" by linarith
      then have "rat_of_int (int (k + 1)) = of_int \<lceil>1 / a\<rceil>" by (rule arg_cong)
      then show ?thesis by (simp only: of_int_of_nat_eq)
    qed
    moreover have "1 / a \<le> of_int \<lceil>1 / a\<rceil>" by simp
    ultimately have "1 / a \<le> rat_of_nat (2 ^ bit_length k)" by linarith
    then have "1 / a \<le> 2 ^ bit_length k" by simp
    then have "1 / 2 ^ bit_length k \<le> a"
      using assms by (simp add: field_simps)
    then show ?thesis unfolding E pow2_neg_exp .
  qed
  show "a < pow2 (floor_log2 a + 1)"
  proof (cases "1 \<le> a")
    case True
    define n where "n = nat \<lfloor>a\<rfloor>"
    have npos: "0 < n" using True by (simp add: n_def)
    have an: "a < of_nat n + 1" using True by (simp add: n_def) linarith
    have E: "floor_log2 a + 1 = int (bit_length n)"
      using True bit_length_pos [OF npos] by (simp add: floor_log2_def n_def)
    have "n < 2 ^ bit_length n" by (rule bit_length_upper)
    then have "n + 1 \<le> 2 ^ bit_length n" by simp
    then have "rat_of_nat (n + 1) \<le> of_nat (2 ^ bit_length n)" by (simp only: of_nat_le_iff)
    then have "of_nat n + 1 \<le> (2::rat) ^ bit_length n" by simp
    with an show ?thesis unfolding E pow2_nonneg_exp by simp
  next
    case False
    define k where "k = nat (\<lceil>1 / a\<rceil> - 1)"
    have b: "1 < 1 / a" using False assms by simp
    then have c2: "2 \<le> \<lceil>1 / a\<rceil>" by linarith
    then have kpos: "0 < k" by (simp add: k_def)
    have E: "floor_log2 a + 1 = - int (bit_length k - 1)"
      using False bit_length_pos [OF kpos] by (simp add: floor_log2_def k_def)
    have "rat_of_nat (2 ^ (bit_length k - 1)) \<le> of_nat k"
      using bit_length_lower [OF kpos] by (simp only: of_nat_le_iff)
    moreover have "rat_of_nat k = of_int \<lceil>1 / a\<rceil> - 1"
    proof -
      have "0 \<le> \<lceil>1 / a\<rceil> - 1" using c2 by linarith
      then have "int k = \<lceil>1 / a\<rceil> - 1" unfolding k_def by (rule nat_0_le)
      then have "rat_of_int (int k) = of_int (\<lceil>1 / a\<rceil> - 1)" by (rule arg_cong)
      then show ?thesis by (simp only: of_int_of_nat_eq of_int_diff of_int_1)
    qed
    moreover have "of_int \<lceil>1 / a\<rceil> - 1 < 1 / a" by linarith
    ultimately have "rat_of_nat (2 ^ (bit_length k - 1)) < 1 / a" by linarith
    then have "2 ^ (bit_length k - 1) < 1 / a" by simp
    then have "a < 1 / 2 ^ (bit_length k - 1)"
      using assms by (simp add: field_simps)
    then show ?thesis unfolding E pow2_neg_exp .
  qed
qed

lemma round_half_even_nearest: "\<bar>of_int (round_half_even q) - q\<bar> \<le> 1 / 2"
proof -
  define f where "f = \<lfloor>q\<rfloor>"
  have lo: "of_int f \<le> q" and hi: "q < of_int f + 1"
    unfolding f_def by linarith+
  consider (down) "q - of_int f < 1 / 2" | (up) "q - of_int f > 1 / 2"
    | (tie) "q - of_int f = 1 / 2"
    by linarith
  then show ?thesis
  proof cases
    case down
    then have "round_half_even q = f" by (simp add: round_half_even_def f_def)
    with lo down show ?thesis by simp
  next
    case up
    then have "round_half_even q = f + 1" by (simp add: round_half_even_def f_def)
    with hi up show ?thesis by simp
  next
    case tie
    then have "round_half_even q = f \<or> round_half_even q = f + 1"
      by (simp add: round_half_even_def f_def Let_def)
    with tie show ?thesis by auto
  qed
qed


lemma pow2_pos: "0 < pow2 e"
  by (simp add: pow2_def)

lemma round_to_double_spacing:
  assumes "x \<noteq> 0" and "round_to_double x = Finite r"
  shows "\<exists>m. r = of_int m * pow2 (max (floor_log2 \<bar>x\<bar>) (- 1022) - 52)
             \<and> \<bar>r - x\<bar> \<le> pow2 (max (floor_log2 \<bar>x\<bar>) (- 1022) - 52) / 2"
proof -
  define p where "p = pow2 (max (floor_log2 \<bar>x\<bar>) (- 1022) - 52)"
  define m where "m = round_half_even (\<bar>x\<bar> / p)"
  have p: "0 < p" by (simp add: p_def pow2_pos)
  have r: "r = (if x < 0 then - (of_int m * p) else of_int m * p)"
    using assms by (simp add: round_to_double_def Let_def m_def p_def split: if_splits)
  have "\<bar>of_int m - \<bar>x\<bar> / p\<bar> \<le> 1 / 2"
    unfolding m_def by (rule round_half_even_nearest)
  then have "\<bar>of_int m - \<bar>x\<bar> / p\<bar> * p \<le> 1 / 2 * p"
    using p by (simp only: mult_le_cancel_right_pos)
  moreover have "\<bar>of_int m - \<bar>x\<bar> / p\<bar> * p = \<bar>of_int m * p - \<bar>x\<bar>\<bar>"
  proof -
    have "\<bar>of_int m - \<bar>x\<bar> / p\<bar> * p = \<bar>(of_int m - \<bar>x\<bar> / p) * p\<bar>"
      using p by (simp add: abs_mult)
    also have "(of_int m - \<bar>x\<bar> / p) * p = of_int m * p - \<bar>x\<bar>"
      using p by (simp add: field_simps)
    finally show ?thesis .
  qed
  ultimately have near: "\<bar>of_int m * p - \<bar>x\<bar>\<bar> \<le> p / 2" by simp
  show ?thesis
  proof (cases "x < 0")
    case True
    with r have "r = of_int (- m) * p" by simp
    moreover have "\<bar>r - x\<bar> \<le> p / 2" using near r True by (simp add: abs_if split: if_splits)
    ultimately show ?thesis unfolding p_def by blast
  next
    case False
    with r have "r = of_int m * p" by simp
    moreover have "\<bar>r - x\<bar> \<le> p / 2" using near r False by (simp add: abs_if split: if_splits)
    ultimately show ?thesis unfolding p_def by blast
  qed
qed

lemma round_to_double_zero [simp]: "round_to_double 0 = Finite 0"
  by (simp add: round_to_double_def)

subsection \<open>Evaluating sums of doubles\<close>

text \<open>
  \<open>round_to_double_eval\<close> computes a rounding from the exponent \<open>E\<close>, the spacing
  \<open>2^e\<close> and the rounded multiple \<open>m\<close>, each checked by evaluation.
\<close>

lemma floor_rat_numeral_div:
  "\<lfloor>(numeral a / numeral b :: rat)\<rfloor> = numeral a div numeral b"
  using floor_divide_of_int_eq [of "numeral a" "numeral b", where ?'a = rat] by simp

lemma ceiling_rat_numeral_div:
  "\<lceil>(numeral a / numeral b :: rat)\<rceil> = - ((- numeral a) div numeral b)"
  using ceiling_divide_eq_div [of "numeral a" "numeral b", where ?'a = rat] by simp

lemma bit_length_numeral:
  "bit_length (numeral k) = Suc (bit_length (numeral k div 2))"
  "bit_length 0 = 0"
  "bit_length 1 = 1"
  "bit_length (Suc 0) = 1"
  by (simp_all add: bit_length.simps)

lemma round_to_double_eval:
  assumes "0 < a" and "floor_log2 a = E" and "max E (- 1022) - 52 = e"
    and "round_half_even (a / pow2 e) = m" and "of_int m * pow2 e = r" and "r < 2 ^ 1024"
  shows "round_to_double a = Finite r" and "round_to_double (- a) = Finite (- r)"
  using assms by (simp_all add: round_to_double_def Let_def)

lemmas double_eval =
  floor_log2_def pow2_def round_half_even_def Let_def bit_length_numeral
  floor_rat_numeral_div ceiling_rat_numeral_div

lemma double_0_01_literal: "round_to_double (1 / 100) = Finite double_0_01"
  unfolding double_0_01_def
  by (rule round_to_double_eval(1) [where E = "-7" and e = "-59" and m = 5764607523034235])
     (simp_all add: double_eval)

lemma double_29_01_literal: "round_to_double (2901 / 100) = Finite double_29_01"
  unfolding double_29_01_def
  by (rule round_to_double_eval(1) [where E = 4 and e = "-48" and m = 8165589074376131])
     (simp_all add: double_eval)

lemma double_100_01_literal: "round_to_double (10001 / 100) = Finite double_100_01"
  unfolding double_100_01_def
  by (rule round_to_double_eval(1) [where E = 6 and e = "-46" and m = 7037578105208177])
     (simp_all add: double_eval)

lemma number_sub_Finite [simp]:
  "number_sub (Finite a) (Finite b) = round_to_double (a - b)"
  by (simp add: number_sub_def)

lemma expectedTotal_eval:
  assumes "round_to_double (subtotal d + deliveryFee d) = Finite z"
    and "round_to_double (z - (case discountAmount d of None \<Rightarrow> 0 | Some x \<Rightarrow> x)) = Finite x"
  shows "expectedTotal d = Finite x"
  using assms by (simp add: expectedTotal_def)

lemma checkTotal_skips:
  assumes "expectedTotal d = Finite x" and "round_to_double (total d - x) = Finite y"
    and "\<not> \<bar>y\<bar> > double_0_01"
  shows "checkTotal env d a = a"
  using assms by (simp add: checkTotal_def)

lemma checkTotal_pushes:
  assumes "expectedTotal d = Finite x" and "round_to_double (total d - x) = Finite y"
    and "\<bar>y\<bar> > double_0_01"
  shows "checkTotal env d a =
     push_error
       \<lparr>field = ''total'',
        message = ''Order total calculation error. Expected: R''
          @ toFixed2 (numberToString env) x
          @ '', Received: R'' @ toFixed2 (numberToString env) (total d),
        code = ''TOTAL_CALCULATION_ERROR'', severity = error\<rparr> a"
  using assms by (simp add: checkTotal_def number_toFixed2_def)

lemma round_698_98:
  "round_to_double (1537073275165737 / 2199023255552) =
     Finite (1537073275165737 / 2199023255552)"
  by (rule round_to_double_eval(1) [where E = 9 and e = "-43" and m = 6148293100662948])
     (simp_all add: double_eval)

lemma checkTotal_validGuestOrder: "checkTotal env (validGuestOrder\<lparr>cartItems := c\<rparr>) a = a"
proof (rule checkTotal_skips)
  show "expectedTotal (validGuestOrder\<lparr>cartItems := c\<rparr>) =
      Finite (1537073275165737 / 2199023255552)"
    by (rule expectedTotal_eval [where z = "1537073275165737 / 2199023255552"])
       (simp_all add: validGuestOrder_def round_698_98)
  show "round_to_double (total (validGuestOrder\<lparr>cartItems := c\<rparr>)
            - 1537073275165737 / 2199023255552) = Finite 0"
    by (simp add: validGuestOrder_def)
  show "\<not> \<bar>0\<bar> > double_0_01"
    by (simp add: double_0_01_def)
qed

lemma round_15099: "round_to_double 15099 = Finite 15099"
  by (rule round_to_double_eval(1) [where E = 13 and e = "-39" and m = 8300763033894912])
     (simp_all add: double_eval)

lemma checkTotal_highValueOrder: "checkTotal env highValueOrder a = a"
proof (rule checkTotal_skips)
  show "expectedTotal highValueOrder = Finite 15099"
    by (rule expectedTotal_eval [where z = 15099])
       (simp_all add: highValueOrder_def validGuestOrder_def round_15099)
  show "round_to_double (total highValueOrder - 15099) = Finite 0"
    by (simp add: highValueOrder_def round_to_double_def)
  show "\<not> \<bar>0\<bar> > double_0_01"
    by (simp add: double_0_01_def)
qed

subsection \<open>The guest of the test suite passes the guest checks\<close>

lemma checkGuest_test_guest:
  "checkGuest
     \<lparr>full_name = ''John Doe'', email = ''john@example.com'', phone = ''+27123456789''\<rparr>
     \<lparr>street_address = ''123 Main St'', city = ''Cape Town'', province = ''Western Cape'',
      postal_code = ''8001'', address_phone = ''+27123456789''\<rparr> a = a"
  by (simp add: checkGuest_def blank_def trim_def isWhiteSpace_def search_def full_match_def
        server_email_regex_def Plus_def)

lemma checkGuest_client_test_guest:
  "checkGuest_client
     \<lparr>full_name = ''John Doe'', email = ''john@example.com'', phone = ''+27123456789''\<rparr>
     \<lparr>street_address = ''123 Main St'', city = ''Cape Town'', province = ''Western Cape'',
      postal_code = ''8001'', address_phone = ''+27123456789''\<rparr> a = a"
  by (simp add: checkGuest_client_def blank_def trim_def isWhiteSpace_def full_match_def
        client_email_regex_def Plus_def)

subsection \<open>Severity tiers\<close>

text \<open>
  Claim C2. \<^verbatim>\<open>determineSeverity\<close> checks three fixed tiers of codes in the order
  critical, high, medium, each tier holding exactly the four listed codes, and answers
  \<open>low\<close> when no code of the list is in a tier. In particular a list that holds a code of
  the critical tier and a code of the high tier is classified \<open>critical\<close>.
\<close>

theorem determineSeverity_tiers:
  "determineSeverity errs =
     (if \<exists>e\<in>set errs. code e \<in> {''PRODUCT_NOT_FOUND'', ''CALCULATION_MISMATCH'',
                                   ''CART_EMPTY'', ''INVALID_USER_ID''} then critical
      else if \<exists>e\<in>set errs. code e \<in> {''PRODUCT_OUT_OF_STOCK'', ''INVALID_DISCOUNT_CODE'',
                                   ''DISCOUNT_USAGE_EXCEEDED'', ''MAXIMUM_ORDER_EXCEEDED''}
      then high
      else if \<exists>e\<in>set errs. code e \<in> {''PRODUCT_PRICE_CHANGED'', ''DISCOUNT_EXPIRED'',
                                   ''MINIMUM_ORDER_NOT_MET'', ''INVALID_QUANTITY''}
      then medium
      else low)
   \<and> ((\<exists>e\<in>set errs. code e \<in> {''PRODUCT_NOT_FOUND'', ''CALCULATION_MISMATCH'',
                                 ''CART_EMPTY'', ''INVALID_USER_ID''})
        \<and> (\<exists>e\<in>set errs. code e \<in> {''PRODUCT_OUT_OF_STOCK'', ''INVALID_DISCOUNT_CODE'',
                                 ''DISCOUNT_USAGE_EXCEEDED'', ''MAXIMUM_ORDER_EXCEEDED''})
        \<longrightarrow> determineSeverity errs = critical)"
  by (simp add: determineSeverity_def some_iff array_includes_def criticalCodes_def
        highCodes_def mediumCodes_def)

theorem determineSeverity_tiers_witness:
  "determineSeverity
     [\<lparr>field = ''cartItems'', message = ''out of stock'', code = ''PRODUCT_OUT_OF_STOCK'',
       severity = error\<rparr>,
      \<lparr>field = ''cartItems'', message = ''not found'', code = ''PRODUCT_NOT_FOUND'',
       severity = error\<rparr>] = critical"
  using determineSeverity_tiers
    [of "[\<lparr>field = ''cartItems'', message = ''out of stock'',
           code = ''PRODUCT_OUT_OF_STOCK'', severity = error\<rparr>,
          \<lparr>field = ''cartItems'', message = ''not found'', code = ''PRODUCT_NOT_FOUND'',
           severity = error\<rparr>]"]
  by simp

subsection \<open>The merge of \<^verbatim>\<open>validateOrder\<close>\<close>

text \<open>
  Claim C5. The result of \<^verbatim>\<open>validateOrder\<close> is valid exactly when the result of
  \<^verbatim>\<open>validateDatabaseConstraints\<close> and the result of the business rules (those of the
  server module, which is what \<^verbatim>\<open>validateOrder\<close> calls) are both valid; its errors are
  the errors of the first followed by the errors of the second, and so are its warnings.
  Nothing is deduplicated: an entry occurs as often as it occurs in the two lists together.
\<close>

theorem validateOrder_merges:
  "isValid (validateOrder env d) =
     (isValid (validateDatabaseConstraints env d) \<and> isValid (server_validateBusinessRules d))
   \<and> errors (validateOrder env d) =
       errors (validateDatabaseConstraints env d) @ errors (server_validateBusinessRules d)
   \<and> warnings (validateOrder env d) =
       warnings (validateDatabaseConstraints env d) @ warnings (server_validateBusinessRules d)
   \<and> count_list (errors (validateOrder env d)) e =
       count_list (errors (validateDatabaseConstraints env d)) e
       + count_list (errors (server_validateBusinessRules d)) e
   \<and> count_list (warnings (validateOrder env d)) w =
       count_list (warnings (validateDatabaseConstraints env d)) w
       + count_list (warnings (server_validateBusinessRules d)) w"
  by (simp add: validateOrder_def Let_def)

theorem validateOrder_merges_witness:
  "errors (validateOrder jest_mock highValueOrder) =
     errors (validateDatabaseConstraints jest_mock highValueOrder)
     @ errors (server_validateBusinessRules highValueOrder)
   \<and> isValid (validateOrder jest_mock highValueOrder) =
       (isValid (validateDatabaseConstraints jest_mock highValueOrder)
        \<and> isValid (server_validateBusinessRules highValueOrder))"
  using validateOrder_merges [of jest_mock highValueOrder] by simp

subsection \<open>Masking of phone numbers\<close>

lemma repeat_star: "0 \<le> n \<Longrightarrow> repeat ''*'' n = Inr (replicate (nat n) CHR ''*'')"
  by (simp add: repeat_def)

text \<open>
  Claim C6. The claim is that \<^verbatim>\<open>maskPhone\<close> returns the first three characters, asterisks
  and the last three characters for every phone longer than 4, and the phone itself up
  to length 4. The function does so from length 6 on and up to length 4. At length 5 the
  count of asterisks is \<open>5 - 6\<close>, and \<^verbatim>\<open>repeat\<close> throws a \<^verbatim>\<open>RangeError\<close>: the function
  returns nothing.
\<close>

theorem maskPhone_cases:
  "maskPhone p =
     (if length p \<le> 4 then Inr p
      else if length p = 5 then Inl RangeError
      else Inr (take 3 p @ replicate (length p - 6) CHR ''*'' @ drop (length p - 3) p))"
proof -
  have short: "length p \<le> 4 \<Longrightarrow> maskPhone p = Inr p"
    by (simp add: maskPhone_def)
  have five: "length p = 5 \<Longrightarrow> maskPhone p = Inl RangeError"
    by (simp add: maskPhone_def repeat_def)
  have long: "maskPhone p = Inr (take 3 p @ replicate (length p - 6) CHR ''*''
                                  @ drop (length p - 3) p)"
    if "6 \<le> length p"
  proof -
    have "repeat ''*'' (int (length p) - 6) = Inr (replicate (length p - 6) CHR ''*'')"
      using that repeat_star [of "int (length p) - 6"] by (simp add: nat_diff_distrib')
    moreover have "substring p 0 3 = take 3 p"
      using that by (simp add: substring_def Let_def min_def max_def)
    moreover have "substring_from p (int (length p) - 3) = drop (length p - 3) p"
      using that by (simp add: substring_from_def substring_def Let_def min_def max_def
          nat_diff_distrib')
    ultimately show ?thesis using that by (simp add: maskPhone_def)
  qed
  show ?thesis using short five long by (cases "length p \<le> 4"; cases "length p = 5"; simp)
qed

theorem maskPhone_five_throws: "maskPhone ''12345'' = Inl RangeError"
  using maskPhone_cases [of "''12345''"] by simp

text \<open>The phone of the specification: the first three and the last three digits stay.\<close>

lemma maskPhone_ten_digits: "maskPhone ''0123456789'' = Inr ''012****789''"
  by (simp add: maskPhone_def repeat_def substring_def substring_from_def eval_nat_numeral)

subsection \<open>The logging operations never throw\<close>

lemma io_try_unit:
  assumes "\<And>x. fst (h x) = Inr ()"
  shows "fst (io_try (m :: unit io) h) = Inr ()"
proof (cases m)
  case (Pair r t)
  show ?thesis
  proof (cases r)
    case (Inl x)
    with Pair assms [of x] show ?thesis
      by (cases "h x") (simp add: io_try_def)
  next
    case (Inr v)
    with Pair show ?thesis by (simp add: io_try_def)
  qed
qed

text \<open>
  Claim C8. \<^verbatim>\<open>logValidationViolation\<close>, \<^verbatim>\<open>logValidationSuccess\<close> and
  \<^verbatim>\<open>logSuspiciousActivity\<close> return normally on every input and in every environment:
  whatever is thrown inside (by the masking, by the missing \<^verbatim>\<open>navigator\<close>, by the client
  or by the insert) is caught. \<^verbatim>\<open>storeAuditLog\<close> and \<^verbatim>\<open>sendCriticalAlert\<close> catch their
  own failures, so a failed alert does not leave the logger either.
\<close>

theorem logging_never_throws:
  "fst (logValidationViolation env this d errs ctx) = Inr ()
   \<and> fst (logValidationSuccess env this d warns) = Inr ()
   \<and> fst (logSuspiciousActivity env this description d ctx) = Inr ()
   \<and> fst (storeAuditLog env entry) = Inr ()
   \<and> fst (sendCriticalAlert entry) = Inr ()"
  unfolding logValidationViolation_def logValidationSuccess_def logSuspiciousActivity_def
    storeAuditLog_def sendCriticalAlert_def
  by (intro conjI io_try_unit) (simp_all add: io_emit_def)

theorem logging_never_throws_witness:
  "fst (logValidationViolation failing_logger_env test_logger validGuestOrder [] None)
     = Inr ()
   \<and> fst (logValidationSuccess failing_logger_env test_logger validGuestOrder []) = Inr ()
   \<and> fst (logSuspiciousActivity failing_logger_env test_logger ''Unusually high quantity order''
            validGuestOrder None) = Inr ()"
  using logging_never_throws
    [of failing_logger_env test_logger validGuestOrder "[]" None "[]"
        "''Unusually high quantity order''"]
  by simp

subsection \<open>The array of errors only grows\<close>

lemma grows_refl: "grows S a a"
  by (simp add: grows_def)

lemma grows_trans: "grows S a b \<Longrightarrow> grows S b c \<Longrightarrow> grows S a c"
  by (fastforce simp: grows_def)

lemma grows_push_error:
  "grows S a b \<Longrightarrow> code e \<in> S \<Longrightarrow> grows S a (push_error e b)"
  by (fastforce simp: grows_def)

lemma grows_push_warning: "grows S a b \<Longrightarrow> grows S a (push_warning w b)"
  by (simp add: grows_def)

lemma grows_if:
  "grows S a b \<Longrightarrow> code e \<in> S \<Longrightarrow>
   grows S a (if c then push_error e b else b)"
  by (simp add: grows_push_error)

lemma grows_if2:
  "grows S a b \<Longrightarrow> code e \<in> S \<Longrightarrow>
   code e' \<in> S \<Longrightarrow>
   grows S a (if c then push_error e b else if c' then push_error e' b else b)"
  by (simp add: grows_push_error)

lemma grows_if_warning: "grows S a b \<Longrightarrow> grows S a (if c then push_warning w b else b)"
  by (simp add: grows_push_warning)

lemma grows_subset: "grows S a b \<Longrightarrow> set (fst a) \<subseteq> set (fst b)"
  by (auto simp: grows_def)

lemma grows_codes:
  "grows S a b \<Longrightarrow> \<forall>e\<in>set (fst a). code e \<in> S \<Longrightarrow>
   \<forall>e\<in>set (fst b). code e \<in> S"
  by (auto simp: grows_def)

lemma grows_checkDeliveryMethod: "grows (set server_error_codes) a (checkDeliveryMethod d a)"
  unfolding checkDeliveryMethod_def
  by (intro grows_if grows_refl) (simp add: server_error_codes_def)

lemma grows_checkGuest: "grows (set server_error_codes) a (checkGuest ci ad a)"
  unfolding checkGuest_def Let_def
  by (intro grows_if grows_if2 grows_refl) (simp_all add: server_error_codes_def)

lemma grows_checkDiscount: "grows (set server_error_codes) a (checkDiscount env d a)"
  unfolding checkDiscount_def Let_def
  by (auto split: option.split intro!: grows_refl grows_push_error
        simp: server_error_codes_def)

lemma grows_checkAmounts: "grows (set server_error_codes) a (checkAmounts d a)"
  unfolding checkAmounts_def Let_def
  by (intro grows_if grows_refl) (simp_all add: server_error_codes_def)

lemma grows_checkTotal: "grows (set server_error_codes) a (checkTotal env d a)"
  unfolding checkTotal_def
  by (intro grows_if grows_refl) (simp add: server_error_codes_def)

lemma grows_checkProduct: "grows (set server_error_codes) a (acc_of (checkProduct env item a))"
  unfolding checkProduct_def Let_def
  by (auto split: sum.split option.split
        intro!: grows_refl grows_push_error grows_push_warning grows_if grows_if_warning
        simp: server_error_codes_def)

lemma grows_forOf:
  "(\<And>x a. grows S a (acc_of (f x a))) \<Longrightarrow> grows S a (acc_of (forOf xs f a))"
proof (induction xs arbitrary: a)
  case Nil
  show ?case by (simp add: grows_refl)
next
  case (Cons x xs)
  show ?case
  proof (cases "f x a")
    case (Completed b)
    have "grows S a b" using Cons.prems [of a x] Completed by simp
    moreover have "grows S b (acc_of (forOf xs f b))" using Cons.IH Cons.prems by simp
    ultimately show ?thesis using Completed by (simp add: and_then_def grows_trans)
  next
    case (Threw e b)
    then show ?thesis using Cons.prems [of a x] by (simp add: and_then_def)
  qed
qed

lemma grows_checkCart: "grows (set server_error_codes) a (acc_of (checkCart env d a))"
proof (cases "length (cartItems d) = 0")
  case True
  have "''EMPTY_CART'' \<in> set server_error_codes" by (simp add: server_error_codes_def)
  with True show ?thesis
    unfolding checkCart_def by (simp add: grows_push_error grows_refl)
next
  case False
  then show ?thesis
    unfolding checkCart_def by (simp add: grows_forOf grows_checkProduct)
qed

lemma grows_checkAuthenticated: "grows (set server_error_codes) a (acc_of (checkAuthenticated env uid aid a))"
  unfolding checkAuthenticated_def Let_def
  by (auto split: sum.split
        intro!: grows_refl grows_push_error grows_if simp: server_error_codes_def)

lemma grows_and_then:
  "grows S a (acc_of m) \<Longrightarrow> (\<And>b. grows S b (acc_of (f b))) \<Longrightarrow> grows S a (acc_of (and_then m f))"
  by (cases m) (auto simp: and_then_def intro: grows_trans)

lemma grows_and_then_first:
  "m = Completed b \<Longrightarrow> (\<And>c. grows S c (acc_of (f c))) \<Longrightarrow>
   grows S b (acc_of (and_then m f))"
  by (simp add: and_then_def)

lemma grows_try_block: "grows (set server_error_codes) ([], []) (acc_of (try_block env d))"
  unfolding try_block_def
  apply (rule grows_and_then)
   apply (rule grows_trans [OF grows_checkDeliveryMethod grows_checkCart])
  apply (rule grows_and_then)
   apply (simp add: grows_checkGuest grows_refl split: shape.split)
  apply (rule grows_and_then)
   apply (simp add: grows_checkAuthenticated grows_refl split: shape.split)
  apply simp
  apply (rule grows_trans [OF grows_checkDiscount])
  apply (rule grows_trans [OF grows_checkAmounts])
  apply (rule grows_checkTotal)
  done

lemma db_errors_codes:
  "\<forall>e\<in>set (errors (validateDatabaseConstraints env d)). code e \<in> set server_error_codes"
proof -
  have g: "grows (set server_error_codes) ([], []) (acc_of (try_block env d))"
    by (rule grows_try_block)
  have base: "\<forall>e\<in>set (fst (acc_of (try_block env d))). code e \<in> set server_error_codes"
    using grows_codes [OF g] by simp
  show ?thesis
  proof (cases "try_block env d")
    case (Completed a)
    with base show ?thesis by (simp add: validateDatabaseConstraints_def)
  next
    case (Threw x a)
    with base show ?thesis
      by (simp add: validateDatabaseConstraints_def) (simp add: server_error_codes_def)
  qed
qed

lemma db_isValid: "isValid (validateDatabaseConstraints env d) =
    (errors (validateDatabaseConstraints env d) = [])"
  by (simp add: validateDatabaseConstraints_def split: attempt.split)

lemma grows_checkMaxQuantity: "grows (set server_error_codes) a (checkMaxQuantity item a)"
  unfolding checkMaxQuantity_def
  by (intro grows_if grows_refl) (simp add: server_error_codes_def)

lemma grows_fold: "(\<And>x a. grows S a (f x a)) \<Longrightarrow> grows S a (fold f xs a)"
proof (induction xs arbitrary: a)
  case Nil
  show ?case by (simp add: grows_refl)
next
  case (Cons x xs)
  have "grows S a (f x a)" by (rule Cons.prems)
  moreover have "grows S (f x a) (fold f xs (f x a))" using Cons.IH Cons.prems by simp
  ultimately show ?case by (simp add: grows_trans)
qed




subsection \<open>The maximum order value\<close>

lemma server_business_errors:
  "\<exists>es. errors (server_validateBusinessRules d) =
          (if total d > maximumOrderValue
           then [\<lparr>field = ''total'',
                  message = ''Order total exceeds maximum allowed amount of R10000'',
                  code = ''EXCESSIVE_ORDER_VALUE'', severity = error\<rparr>]
           else []) @ es
        \<and> (\<forall>e\<in>set es. code e \<in> set server_error_codes)"
proof -
  let ?a1 = "(if subtotal d < minimumOrderValue
              then push_warning
                     \<lparr>field = ''subtotal'',
                      message = ''Orders under R50 may have extended processing times'',
                      code = ''LOW_ORDER_VALUE'', severity = warning\<rparr> ([], [])
              else ([], []))"
  let ?a2 = "(if total d > maximumOrderValue
              then push_error
                     \<lparr>field = ''total'',
                      message = ''Order total exceeds maximum allowed amount of R10000'',
                      code = ''EXCESSIVE_ORDER_VALUE'', severity = error\<rparr> ?a1
              else ?a1)"
  have "grows (set server_error_codes) ?a2 (fold checkMaxQuantity (cartItems d) ?a2)"
    by (rule grows_fold) (rule grows_checkMaxQuantity)
  then obtain es where es: "fst (fold checkMaxQuantity (cartItems d) ?a2) = fst ?a2 @ es"
    "\<forall>e\<in>set es. code e \<in> set server_error_codes"
    unfolding grows_def by blast
  have "errors (server_validateBusinessRules d) = fst ?a2 @ es"
    using es(1) by (simp add: server_validateBusinessRules_def Let_def)
  moreover have "fst ?a2 =
          (if total d > maximumOrderValue
           then [\<lparr>field = ''total'',
                  message = ''Order total exceeds maximum allowed amount of R10000'',
                  code = ''EXCESSIVE_ORDER_VALUE'', severity = error\<rparr>]
           else [])"
    by simp
  ultimately show ?thesis using es(2) by auto
qed

lemma server_business_isValid:
  "isValid (server_validateBusinessRules d) = (errors (server_validateBusinessRules d) = [])"
  by (simp add: server_validateBusinessRules_def Let_def)

text \<open>
  Claim C3. The claim is that a draft whose total is 15099 makes \<^verbatim>\<open>validateOrder\<close>
  return \<^verbatim>\<open>isValid = false\<close> with an error of code \<^verbatim>\<open>MAXIMUM_ORDER_EXCEEDED\<close>. The result
  is invalid, but the error that the business rules push for the total carries the code
  \<^verbatim>\<open>EXCESSIVE_ORDER_VALUE\<close>, and no error of the result carries the code
  \<^verbatim>\<open>MAXIMUM_ORDER_EXCEEDED\<close>, which is the code that the test suite, the severity tiers
  of the audit logger and the error display expect.
\<close>

theorem validateOrder_maximum_order_code:
  "total d = 15099 \<Longrightarrow>
     \<not> isValid (validateOrder env d)
     \<and> \<lparr>field = ''total'',
         message = ''Order total exceeds maximum allowed amount of R10000'',
         code = ''EXCESSIVE_ORDER_VALUE'', severity = error\<rparr>
         \<in> set (errors (validateOrder env d))
     \<and> (\<forall>e\<in>set (errors (validateOrder env d)). code e \<noteq> ''MAXIMUM_ORDER_EXCEEDED'')"
proof -
  assume t: "total d = 15099"
  obtain es where es:
    "errors (server_validateBusinessRules d) =
       [\<lparr>field = ''total'',
         message = ''Order total exceeds maximum allowed amount of R10000'',
         code = ''EXCESSIVE_ORDER_VALUE'', severity = error\<rparr>] @ es"
    "\<forall>e\<in>set es. code e \<in> set server_error_codes"
    using server_business_errors [of d] t by (auto simp: maximumOrderValue_def)
  have no: "''MAXIMUM_ORDER_EXCEEDED'' \<notin> set server_error_codes"
    by (simp add: server_error_codes_def)
  have biz: "\<forall>e\<in>set (errors (server_validateBusinessRules d)).
      code e \<in> set server_error_codes"
    using es by (simp add: server_error_codes_def)
  have all: "\<forall>e\<in>set (errors (validateOrder env d)). code e \<in> set server_error_codes"
    using biz db_errors_codes [of env d] by (auto simp: validateOrder_def Let_def)
  have "\<not> isValid (validateOrder env d)"
    using es(1) by (simp add: validateOrder_def Let_def server_business_isValid)
  moreover have "\<lparr>field = ''total'',
         message = ''Order total exceeds maximum allowed amount of R10000'',
         code = ''EXCESSIVE_ORDER_VALUE'', severity = error\<rparr>
         \<in> set (errors (validateOrder env d))"
    using es(1) by (simp add: validateOrder_def Let_def)
  moreover have "\<forall>e\<in>set (errors (validateOrder env d)). code e \<noteq> ''MAXIMUM_ORDER_EXCEEDED''"
    using all no by metis
  ultimately show ?thesis by blast
qed

theorem validateOrder_maximum_order_code_witness:
  "total highValueOrder = 15099
   \<and> map code (errors (validateOrder jest_mock highValueOrder)) =
       [''INVALID_DELIVERY_METHOD'', ''PRODUCT_NOT_FOUND'', ''EXCESSIVE_ORDER_VALUE'']
   \<and> \<not> isValid (validateOrder jest_mock highValueOrder)"
proof -
  have t: "total highValueOrder = 15099"
    by (simp add: highValueOrder_def)
  have "map code (errors (validateOrder jest_mock highValueOrder)) =
       [''INVALID_DELIVERY_METHOD'', ''PRODUCT_NOT_FOUND'', ''EXCESSIVE_ORDER_VALUE'']"
    unfolding validateOrder_def validateDatabaseConstraints_def try_block_def
      checkTotal_highValueOrder
    by (simp add: server_validateBusinessRules_def checkMaxQuantity_def
          minimumOrderValue_def maximumOrderValue_def maxQuantityPerItem_def
          and_then_def checkDeliveryMethod_def array_includes_def checkCart_def
          checkProduct_def checkDiscount_def checkAmounts_def
          jest_mock_def highValueOrder_def validGuestOrder_def checkGuest_test_guest)
  with t validateOrder_maximum_order_code [OF t, of jest_mock] show ?thesis by simp
qed


lemma grows_checkGuest_client: "grows UNIV a (checkGuest_client ci ad a)"
  unfolding checkGuest_client_def Let_def
  by (intro grows_if grows_if2 grows_refl) simp_all

lemma grows_checkAuthenticated_client: "grows UNIV a (checkAuthenticated_client uid aid a)"
  unfolding checkAuthenticated_client_def Let_def
  by (intro grows_if grows_refl) simp_all

lemma grows_client_tail:
  "grows UNIV a2
     (let a3 = (if total d \<le> 0
                then push_error \<lparr>field = ''total'',
                       message = ''Order total must be greater than 0'',
                       code = ''INVALID_TOTAL'', severity = error\<rparr> a2
                else a2);
          a4 = (if deliveryMethod d = []
                then push_error \<lparr>field = ''deliveryMethod'',
                       message = ''Delivery method is required'',
                       code = ''MISSING_DELIVERY_METHOD'', severity = error\<rparr> a3
                else a3);
          a5 = (case shape d of
                  Guest ci ad \<Rightarrow> checkGuest_client ci ad a4
                | Authenticated uid aid \<Rightarrow> a4)
      in (case shape d of
                  Authenticated uid aid \<Rightarrow> checkAuthenticated_client uid aid a5
                | Guest ci ad \<Rightarrow> a5))"
  unfolding Let_def
  by (cases "shape d")
     (auto intro!: grows_trans [OF _ grows_checkGuest_client]
        grows_trans [OF _ grows_checkAuthenticated_client] grows_push_error grows_refl)

subsection \<open>The empty cart\<close>

lemma empty_cart_errors:
  "cartItems d = [] \<Longrightarrow>
     \<lparr>field = ''cartItems'', message = ''Cart cannot be empty'', code = ''EMPTY_CART'',
      severity = error\<rparr> \<in> set (errors (client_validateBusinessRules d))
     \<and> \<not> isValid (client_validateBusinessRules d)
     \<and> \<lparr>field = ''cartItems'', message = ''Order must contain at least one item'',
        code = ''EMPTY_CART'', severity = error\<rparr>
        \<in> set (errors (validateDatabaseConstraints env d))
     \<and> \<not> isValid (validateDatabaseConstraints env d)"
proof -
  assume empty: "cartItems d = []"
  let ?ce = "\<lparr>field = ''cartItems'', message = ''Cart cannot be empty'',
              code = ''EMPTY_CART'', severity = error\<rparr>"
  let ?se = "\<lparr>field = ''cartItems'', message = ''Order must contain at least one item'',
              code = ''EMPTY_CART'', severity = error\<rparr>"
  have "set (fst (push_error ?ce ([], []))) \<subseteq> set (errors (client_validateBusinessRules d))"
    using empty grows_subset [OF grows_client_tail [of "push_error ?ce ([], [])" d]]
    by (simp add: client_validateBusinessRules_def forEach_def Let_def)
  then have c: "?ce \<in> set (errors (client_validateBusinessRules d))"
    by simp
  have cv: "isValid (client_validateBusinessRules d) =
      (errors (client_validateBusinessRules d) = [])"
    by (simp add: client_validateBusinessRules_def Let_def)
  have first: "checkCart env d (checkDeliveryMethod d ([], [])) =
      Completed (push_error ?se (checkDeliveryMethod d ([], [])))"
    using empty by (simp add: checkCart_def)
  have "grows (set server_error_codes) (push_error ?se (checkDeliveryMethod d ([], [])))
      (acc_of (try_block env d))"
    unfolding try_block_def
    apply (rule grows_and_then_first [OF first])
    apply (rule grows_and_then)
     apply (simp add: grows_checkGuest grows_refl split: shape.split)
    apply (rule grows_and_then)
     apply (simp add: grows_checkAuthenticated grows_refl split: shape.split)
    apply simp
    apply (rule grows_trans [OF grows_checkDiscount])
    apply (rule grows_trans [OF grows_checkAmounts])
    apply (rule grows_checkTotal)
    done
  then have "?se \<in> set (fst (acc_of (try_block env d)))"
    using grows_subset by fastforce
  then have s: "?se \<in> set (errors (validateDatabaseConstraints env d))"
    by (cases "try_block env d") (simp_all add: validateDatabaseConstraints_def)
  from c cv s db_isValid [of env d] show ?thesis by auto
qed

text \<open>
  Claim C1. For every draft with an empty \<^verbatim>\<open>cartItems\<close>, the business rules of the client
  module and \<^verbatim>\<open>validateDatabaseConstraints\<close> (in every environment, also one whose later
  lookups throw) both return a result that holds a cart-empty error on the field
  \<^verbatim>\<open>cartItems\<close> and has \<^verbatim>\<open>isValid = false\<close>.
\<close>

theorem empty_cart_reported:
  "cartItems d = [] \<Longrightarrow>
     \<lparr>field = ''cartItems'', message = ''Cart cannot be empty'', code = ''EMPTY_CART'',
      severity = error\<rparr> \<in> set (errors (client_validateBusinessRules d))
     \<and> \<not> isValid (client_validateBusinessRules d)
     \<and> \<lparr>field = ''cartItems'', message = ''Order must contain at least one item'',
        code = ''EMPTY_CART'', severity = error\<rparr>
        \<in> set (errors (validateDatabaseConstraints env d))
     \<and> \<not> isValid (validateDatabaseConstraints env d)"
  by (rule empty_cart_errors)

theorem empty_cart_reported_witness:
  "cartItems (validGuestOrder\<lparr>cartItems := []\<rparr>) = []
   \<and> \<not> isValid (client_validateBusinessRules (validGuestOrder\<lparr>cartItems := []\<rparr>))
   \<and> \<not> isValid (validateDatabaseConstraints jest_mock (validGuestOrder\<lparr>cartItems := []\<rparr>))
   \<and> map code (errors (validateDatabaseConstraints jest_mock
                          (validGuestOrder\<lparr>cartItems := []\<rparr>)))
       = [''INVALID_DELIVERY_METHOD'', ''EMPTY_CART'']
   \<and> map code (errors (client_validateBusinessRules (validGuestOrder\<lparr>cartItems := []\<rparr>)))
       = [''EMPTY_CART'']"
proof -
  have e: "cartItems (validGuestOrder\<lparr>cartItems := []\<rparr>) = []" by simp
  have 1: "map code (errors (validateDatabaseConstraints jest_mock
                          (validGuestOrder\<lparr>cartItems := []\<rparr>)))
       = [''INVALID_DELIVERY_METHOD'', ''EMPTY_CART'']"
    unfolding validateDatabaseConstraints_def try_block_def checkTotal_validGuestOrder
    by (simp add: and_then_def checkDeliveryMethod_def array_includes_def checkCart_def
          checkDiscount_def checkAmounts_def
          jest_mock_def validGuestOrder_def checkGuest_test_guest)
  have 2: "map code (errors (client_validateBusinessRules
      (validGuestOrder\<lparr>cartItems := []\<rparr>))) = [''EMPTY_CART'']"
    by (simp add: client_validateBusinessRules_def forEach_def validGuestOrder_def
          checkGuest_client_test_guest)
  from empty_cart_reported [OF e, of jest_mock] e 1 2 show ?thesis by simp
qed

subsection \<open>The check of the total\<close>

lemma checkProduct_completes:
  "\<not> isl (products_single env (product_id item)) \<Longrightarrow>
   \<exists>b. checkProduct env item a = Completed b"
  by (cases "products_single env (product_id item)")
     (simp_all add: checkProduct_def Let_def split: option.split)

lemma and_then_Completed_iff:
  "and_then m f = Completed a \<longleftrightarrow> (\<exists>b. m = Completed b \<and> f b = Completed a)"
  by (cases m) (simp_all add: and_then_def)

lemma forOf_completes:
  "(\<And>x a. x \<in> set xs \<Longrightarrow> \<exists>b. f x a = Completed b) \<Longrightarrow>
   \<exists>b. forOf xs f a = Completed b"
proof (induction xs arbitrary: a)
  case Nil
  show ?case by (simp del: split_paired_Ex)
next
  case (Cons x xs)
  have "\<exists>b. f x a = Completed b" by (rule Cons.prems) simp
  then obtain b where b: "f x a = Completed b" ..
  have "\<exists>c. forOf xs f b = Completed c" by (rule Cons.IH) (rule Cons.prems, simp)
  then obtain c where "forOf xs f b = Completed c" ..
  with b show ?case by (simp add: and_then_def del: split_paired_Ex)
qed

lemma checkCart_completes:
  assumes "\<forall>item\<in>set (cartItems d). \<not> isl (products_single env (product_id item))"
  shows "\<exists>b. checkCart env d a = Completed b"
proof (cases "length (cartItems d) = 0")
  case True
  then show ?thesis by (simp add: checkCart_def del: split_paired_Ex)
next
  case False
  have "\<exists>b. forOf (cartItems d) (checkProduct env) a = Completed b"
    by (rule forOf_completes) (rule checkProduct_completes, use assms in blast)
  with False show ?thesis by (simp add: checkCart_def del: split_paired_Ex)
qed

lemma checkAuthenticated_completes:
  "\<not> isl (auth_getUser env) \<Longrightarrow> \<not> isl (addresses_single env aid uid) \<Longrightarrow>
   \<exists>b. checkAuthenticated env uid aid a = Completed b"
  by (cases "auth_getUser env"; cases "addresses_single env aid uid")
     (simp_all add: checkAuthenticated_def Let_def del: split_paired_Ex)

lemma try_block_Completed_form:
  "try_block env d = Completed a \<Longrightarrow> \<exists>b. a = checkTotal env d b"
  unfolding try_block_def and_then_Completed_iff by blast

lemma try_block_completes:
  assumes "lookups_resolve env d"
  shows "\<exists>a. try_block env d = Completed a"
proof -
  have "\<exists>b. checkCart env d (checkDeliveryMethod d ([], [])) = Completed b"
    by (rule checkCart_completes) (use assms in \<open>simp add: lookups_resolve_def\<close>)
  then obtain b where b: "checkCart env d (checkDeliveryMethod d ([], [])) = Completed b" ..
  show ?thesis
  proof (cases "shape d")
    case (Guest ci ad)
    with b show ?thesis
      by (simp add: try_block_def and_then_def del: split_paired_Ex)
  next
    case (Authenticated uid aid)
    have "\<exists>c. checkAuthenticated env uid aid b = Completed c"
      by (rule checkAuthenticated_completes)
         (use assms Authenticated in \<open>simp_all add: lookups_resolve_def\<close>)
    then obtain c where "checkAuthenticated env uid aid b = Completed c" ..
    with b Authenticated show ?thesis
      by (simp add: try_block_def and_then_def del: split_paired_Ex)
  qed
qed


lemma and_then_Threw_iff:
  "and_then m f = Threw x a \<longleftrightarrow>
     m = Threw x a \<or> (\<exists>b. m = Completed b \<and> f b = Threw x a)"
  by (cases m) (simp_all add: and_then_def)

lemma early_checkDeliveryMethod: "grows (set remote_error_codes) a (checkDeliveryMethod d a)"
  unfolding checkDeliveryMethod_def
  by (intro grows_if grows_refl) (simp add: remote_error_codes_def)

lemma early_checkGuest: "grows (set remote_error_codes) a (checkGuest ci ad a)"
  unfolding checkGuest_def Let_def
  by (intro grows_if grows_if2 grows_refl) (simp_all add: remote_error_codes_def)

lemma early_checkProduct: "grows (set remote_error_codes) a (acc_of (checkProduct env item a))"
  unfolding checkProduct_def Let_def
  by (auto split: sum.split option.split
        intro!: grows_refl grows_push_error grows_push_warning grows_if grows_if_warning
        simp: remote_error_codes_def)

lemma early_checkCart: "grows (set remote_error_codes) a (acc_of (checkCart env d a))"
proof (cases "length (cartItems d) = 0")
  case True
  have "''EMPTY_CART'' \<in> set remote_error_codes" by (simp add: remote_error_codes_def)
  with True show ?thesis
    unfolding checkCart_def by (simp add: grows_push_error grows_refl)
next
  case False
  then show ?thesis
    unfolding checkCart_def by (simp add: grows_forOf early_checkProduct)
qed

lemma early_checkAuthenticated:
  "grows (set remote_error_codes) a (acc_of (checkAuthenticated env uid aid a))"
  unfolding checkAuthenticated_def Let_def
  by (auto split: sum.split
        intro!: grows_refl grows_push_error grows_if simp: remote_error_codes_def)

lemma try_block_Threw_grows:
  assumes "try_block env d = Threw x a"
  shows "grows (set remote_error_codes) ([], []) a"
proof -
  let ?a0 = "checkDeliveryMethod d ([], [])"
  have g1: "grows (set remote_error_codes) ([], []) (acc_of (checkCart env d ?a0))"
    by (rule grows_trans [OF early_checkDeliveryMethod early_checkCart])
  from assms consider (cart) "checkCart env d ?a0 = Threw x a"
    | (later) b c where "checkCart env d ?a0 = Completed b"
        "(case shape d of Guest ci ad \<Rightarrow> Completed (checkGuest ci ad b)
          | Authenticated uid aid \<Rightarrow> Completed b) = Completed c"
        "(case shape d of Authenticated uid aid \<Rightarrow> checkAuthenticated env uid aid c
          | Guest ci ad \<Rightarrow> Completed c) = Threw x a"
    unfolding try_block_def and_then_Threw_iff
    by (auto split: shape.splits)
  then show ?thesis
  proof cases
    case cart
    with g1 show ?thesis by simp
  next
    case later
    have gb: "grows (set remote_error_codes) ([], []) b" using g1 later(1) by simp
    have gc: "grows (set remote_error_codes) b c"
      using later(2) by (cases "shape d") (auto simp: early_checkGuest grows_refl)
    have ga: "grows (set remote_error_codes) c a"
    proof (cases "shape d")
      case (Guest ci ad)
      with later(3) show ?thesis by simp
    next
      case (Authenticated uid aid)
      with later(3) have "checkAuthenticated env uid aid c = Threw x a" by simp
      with early_checkAuthenticated [of c env uid aid] show ?thesis by simp
    qed
    from gb gc ga show ?thesis by (blast intro: grows_trans)
  qed
qed

lemma checkProduct_throws:
  "isl (products_single env (product_id item)) \<Longrightarrow>
   \<exists>x. checkProduct env item a = Threw x a"
  by (cases "products_single env (product_id item)") (simp_all add: checkProduct_def)

lemma forOf_throws:
  "x \<in> set xs \<Longrightarrow> (\<And>a. \<exists>e b. f x a = Threw e b) \<Longrightarrow> \<exists>e b. forOf xs f a = Threw e b"
proof (induction xs arbitrary: a)
  case Nil
  then show ?case by simp
next
  case (Cons y ys)
  show ?case
  proof (cases "f y a")
    case (Threw e b)
    then show ?thesis by (simp add: and_then_def del: split_paired_Ex)
  next
    case (Completed b)
    have "x \<noteq> y"
    proof
      assume "x = y"
      with Cons.prems(2) [of a] Completed show False by simp
    qed
    with Cons.prems(1) have "x \<in> set ys" by simp
    then have "\<exists>e c. forOf ys f b = Threw e c" by (rule Cons.IH) (rule Cons.prems(2))
    with Completed show ?thesis by (simp add: and_then_def del: split_paired_Ex)
  qed
qed

lemma checkAuthenticated_throws:
  "isl (auth_getUser env) \<or> isl (addresses_single env aid uid) \<Longrightarrow>
   \<exists>x b. checkAuthenticated env uid aid a = Threw x b"
  by (cases "auth_getUser env"; cases "addresses_single env aid uid")
     (simp_all add: checkAuthenticated_def Let_def del: split_paired_Ex)

lemma try_block_throws:
  assumes "\<not> lookups_resolve env d"
  shows "\<exists>x a. try_block env d = Threw x a"
proof (cases "\<forall>item\<in>set (cartItems d). \<not> isl (products_single env (product_id item))")
  case False
  then obtain item where item: "item \<in> set (cartItems d)"
    "isl (products_single env (product_id item))" by blast
  then have ne: "length (cartItems d) \<noteq> 0" by auto
  have "\<exists>e b. forOf (cartItems d) (checkProduct env) (checkDeliveryMethod d ([], []))
      = Threw e b"
  proof (rule forOf_throws [OF item(1)])
    fix a
    from checkProduct_throws [OF item(2), of a]
    show "\<exists>e b. checkProduct env item a = Threw e b" by blast
  qed
  then obtain e b where "checkCart env d (checkDeliveryMethod d ([], [])) = Threw e b"
    using ne by (auto simp: checkCart_def)
  then show ?thesis by (simp add: try_block_def and_then_def del: split_paired_Ex)
next
  case True
  have "\<exists>b. checkCart env d (checkDeliveryMethod d ([], [])) = Completed b"
    by (rule checkCart_completes) (rule True)
  then obtain b where b: "checkCart env d (checkDeliveryMethod d ([], [])) = Completed b" ..
  from assms True obtain uid aid where auth: "shape d = Authenticated uid aid"
    and bad: "isl (auth_getUser env) \<or> isl (addresses_single env aid uid)"
    by (cases "shape d") (auto simp: lookups_resolve_def)
  from checkAuthenticated_throws [OF bad, of b]
  obtain x c where "checkAuthenticated env uid aid b = Threw x c" by blast
  with b auth show ?thesis by (simp add: try_block_def and_then_def del: split_paired_Ex)
qed

text \<open>
  Claim C4, as amended. The claim is that every draft whose total differs from
  \<open>subtotal + deliveryFee - discountAmount\<close> by more than 0.01 makes
  \<^verbatim>\<open>validateDatabaseConstraints\<close> report \<^verbatim>\<open>TOTAL_CALCULATION_ERROR\<close>. Two things stand
  against it (\<open>total_mismatch_counterexample\<close>). The check of the total is the last
  statement of the \<^verbatim>\<open>try\<close> block: when a lookup before it throws, the \<^verbatim>\<open>catch\<close> reports
  the generic \<^verbatim>\<open>VALIDATION_ERROR\<close> and the total is never compared. And the code compares
  doubles: \<^verbatim>\<open>expectedTotal\<close> is the rounded sum minus the discount, rounded again; its
  difference to the total is rounded; the bound is the double \<^verbatim>\<open>0.01\<close>. What holds: when
  the difference that the code computes exceeds the double \<^verbatim>\<open>0.01\<close>, the result has
  \<^verbatim>\<open>isValid = false\<close>; when moreover every remote lookup of the draft resolves, the
  result holds the error \<^verbatim>\<open>TOTAL_CALCULATION_ERROR\<close> on the field \<^verbatim>\<open>total\<close>, whose message
  shows the expected and the received total, each with two decimals; and when a lookup
  throws, the errors end with \<^verbatim>\<open>VALIDATION_ERROR\<close> and none of them has the code
  \<^verbatim>\<open>TOTAL_CALCULATION_ERROR\<close>.
\<close>

theorem total_mismatch_reported:
  "number_gt (number_abs (number_sub (Finite (total d)) (expectedTotal d)))
             (Finite double_0_01) \<Longrightarrow>
     \<not> isValid (validateDatabaseConstraints env d)
     \<and> (lookups_resolve env d \<longrightarrow>
          \<lparr>field = ''total'',
           message = ''Order total calculation error. Expected: R''
             @ number_toFixed2 (numberToString env) (expectedTotal d)
             @ '', Received: R'' @ toFixed2 (numberToString env) (total d),
           code = ''TOTAL_CALCULATION_ERROR'', severity = error\<rparr>
          \<in> set (errors (validateDatabaseConstraints env d)))
     \<and> (\<not> lookups_resolve env d \<longrightarrow>
          (\<exists>es. errors (validateDatabaseConstraints env d) =
                 es @ [\<lparr>field = ''general'',
                        message = ''An error occurred during validation. Please try again.'',
                        code = ''VALIDATION_ERROR'', severity = error\<rparr>])
          \<and> (\<forall>e\<in>set (errors (validateDatabaseConstraints env d)).
                 code e \<noteq> ''TOTAL_CALCULATION_ERROR''))"
proof -
  assume m: "number_gt (number_abs (number_sub (Finite (total d)) (expectedTotal d)))
             (Finite double_0_01)"
  let ?e = "\<lparr>field = ''total'',
           message = ''Order total calculation error. Expected: R''
             @ number_toFixed2 (numberToString env) (expectedTotal d)
             @ '', Received: R'' @ toFixed2 (numberToString env) (total d),
           code = ''TOTAL_CALCULATION_ERROR'', severity = error\<rparr>"
  let ?g = "\<lparr>field = ''general'',
            message = ''An error occurred during validation. Please try again.'',
            code = ''VALIDATION_ERROR'', severity = error\<rparr>"
  have push: "checkTotal env d a = push_error ?e a" for a
    using m by (simp add: checkTotal_def)
  have invalid: "\<not> isValid (validateDatabaseConstraints env d)"
  proof (cases "try_block env d")
    case (Completed a)
    then obtain b where "a = checkTotal env d b"
      using try_block_Completed_form by blast
    then have "fst a \<noteq> []" using push by simp
    with Completed show ?thesis by (simp add: validateDatabaseConstraints_def)
  next
    case (Threw x a)
    then show ?thesis by (simp add: validateDatabaseConstraints_def)
  qed
  have found: "?e \<in> set (errors (validateDatabaseConstraints env d))"
    if lr: "lookups_resolve env d"
  proof -
    obtain a where a: "try_block env d = Completed a"
      using try_block_completes [OF lr] by blast
    then obtain b where "a = checkTotal env d b"
      using try_block_Completed_form by blast
    with a show ?thesis using push by (simp add: validateDatabaseConstraints_def)
  qed
  have thrown: "(\<exists>es. errors (validateDatabaseConstraints env d) = es @ [?g])
      \<and> (\<forall>e\<in>set (errors (validateDatabaseConstraints env d)).
             code e \<noteq> ''TOTAL_CALCULATION_ERROR'')"
    if nr: "\<not> lookups_resolve env d"
  proof -
    obtain x a where t: "try_block env d = Threw x a"
      using try_block_throws [OF nr] by blast
    have e: "errors (validateDatabaseConstraints env d) = fst a @ [?g]"
      using t by (simp add: validateDatabaseConstraints_def)
    have "\<forall>e\<in>set (fst a). code e \<in> set remote_error_codes"
      using grows_codes [OF try_block_Threw_grows [OF t]] by simp
    moreover have "''TOTAL_CALCULATION_ERROR'' \<notin> set remote_error_codes"
      by (simp add: remote_error_codes_def)
    ultimately have "\<forall>e\<in>set (fst a). code e \<noteq> ''TOTAL_CALCULATION_ERROR''"
      by metis
    with e show ?thesis by auto
  qed
  from invalid found thrown show ?thesis by blast
qed

text \<open>
  The draft with subtotal 100, fee 0 and total 100.01 on the client of the test suite:
  the double 100.01 minus 100 is a little more than the double 0.01, and the error is
  reported.
\<close>

lemma round_100:
  "round_to_double 100 = Finite 100"
  by (rule round_to_double_eval(1) [where E = 6 and e = "-46" and m = 7036874417766400])
     (simp_all add: double_eval)

lemma round_100_01_diff:
  "round_to_double (703687441777 / 70368744177664) = Finite (703687441777 / 70368744177664)"
  by (rule round_to_double_eval(1) [where E = "-7" and e = "-59" and m = 5764607523037184])
     (simp_all add: double_eval)

lemma expectedTotal_borderlineOrder: "expectedTotal borderlineOrder = Finite 100"
  by (rule expectedTotal_eval [where z = 100])
     (simp_all add: borderlineOrder_def validGuestOrder_def round_100)

lemma borderlineOrder_diff:
  "number_sub (Finite (total borderlineOrder)) (expectedTotal borderlineOrder) =
     Finite (703687441777 / 70368744177664)"
  by (simp add: expectedTotal_borderlineOrder)
     (simp add: borderlineOrder_def double_100_01_def round_100_01_diff)

theorem total_mismatch_reported_witness:
  "number_gt (number_abs (number_sub (Finite (total borderlineOrder))
                                     (expectedTotal borderlineOrder)))
             (Finite double_0_01)
   \<and> lookups_resolve jest_mock borderlineOrder
   \<and> \<not> isValid (validateDatabaseConstraints jest_mock borderlineOrder)
   \<and> \<lparr>field = ''total'',
       message = ''Order total calculation error. Expected: R100.00, Received: R100.01'',
       code = ''TOTAL_CALCULATION_ERROR'', severity = error\<rparr>
      \<in> set (errors (validateDatabaseConstraints jest_mock borderlineOrder))"
proof -
  have h: "number_gt (number_abs (number_sub (Finite (total borderlineOrder))
                                     (expectedTotal borderlineOrder)))
             (Finite double_0_01)"
    by (simp add: borderlineOrder_diff double_0_01_def)
  have r: "lookups_resolve jest_mock borderlineOrder"
    by (simp add: lookups_resolve_def borderlineOrder_def validGuestOrder_def jest_mock_def)
  have e: "number_toFixed2 (numberToString jest_mock) (expectedTotal borderlineOrder)
      = ''100.00''"
    by (simp add: expectedTotal_borderlineOrder number_toFixed2_def toFixed2_def Let_def
          floor_rat_numeral_div digit_def showNat.simps)
  have t: "toFixed2 (numberToString jest_mock) (total borderlineOrder) = ''100.01''"
    by (simp add: borderlineOrder_def double_100_01_def toFixed2_def Let_def
          floor_rat_numeral_div digit_def showNat.simps)
  from total_mismatch_reported [OF h, of jest_mock] h r e t show ?thesis by simp
qed

lemma round_128_01:
  "round_to_double (36031611768731075 / 281474976710656) =
     Finite (562993933886423 / 4398046511104)"
  "round_to_double (562993933886423 / 4398046511104) =
     Finite (562993933886423 / 4398046511104)"
  by (rule round_to_double_eval(1) [where E = 7 and e = "-45" and m = 4503951471091384];
      simp add: double_eval)+

lemma round_128_01_diff:
  "round_to_double (- (43980465111 / 4398046511104)) =
     Finite (- (43980465111 / 4398046511104))"
  by (rule round_to_double_eval(2) [where E = "-7" and e = "-59" and m = 5764607523028992])
     (simp_all add: double_eval)

lemma checkTotal_roundingOrder: "checkTotal env roundingOrder a = a"
proof (rule checkTotal_skips)
  show "expectedTotal roundingOrder = Finite (562993933886423 / 4398046511104)"
    by (rule expectedTotal_eval [where z = "562993933886423 / 4398046511104"])
       (simp_all add: roundingOrder_def validGuestOrder_def double_29_01_def round_128_01)
  show "round_to_double (total roundingOrder - 562993933886423 / 4398046511104) =
      Finite (- (43980465111 / 4398046511104))"
    by (simp add: roundingOrder_def round_128_01_diff)
  show "\<not> \<bar>- (43980465111 / 4398046511104)\<bar> > double_0_01"
    by (simp add: double_0_01_def)
qed

text \<open>
  Two drafts whose total is off by more than 0.01 and for which no
  \<^verbatim>\<open>TOTAL_CALCULATION_ERROR\<close> is reported. The authenticated draft of the test suite with
  a wrong total, on the client of the test suite: \<^verbatim>\<open>supabase.auth\<close> is undefined there
  and the call throws. And the guest draft with subtotal 29.01, fee 99 and total 128,
  with every lookup resolving: the sum rounds to the double 128.01, which is below
  128.01, the difference to 128 is below the double 0.01, and the draft passes with no
  error at all.
\<close>

theorem total_mismatch_counterexample:
  "\<bar>total (validAuthOrder\<lparr>total := 4398002530638889 / 4398046511104\<rparr>)
      - (subtotal (validAuthOrder\<lparr>total := 4398002530638889 / 4398046511104\<rparr>)
         + deliveryFee (validAuthOrder\<lparr>total := 4398002530638889 / 4398046511104\<rparr>)
         - (case discountAmount (validAuthOrder\<lparr>total := 4398002530638889 / 4398046511104\<rparr>) of
              None \<Rightarrow> 0 | Some x \<Rightarrow> x))\<bar> > 1 / 100
   \<and> map code (errors (validateDatabaseConstraints jest_mock
                          (validAuthOrder\<lparr>total := 4398002530638889 / 4398046511104\<rparr>)))
       = [''INVALID_DELIVERY_METHOD'', ''PRODUCT_NOT_FOUND'', ''VALIDATION_ERROR'']
   \<and> \<bar>total roundingOrder
        - (subtotal roundingOrder + deliveryFee roundingOrder
           - (case discountAmount roundingOrder of None \<Rightarrow> 0 | Some x \<Rightarrow> x))\<bar> > 1 / 100
   \<and> lookups_resolve stocked_env roundingOrder
   \<and> errors (validateDatabaseConstraints stocked_env roundingOrder) = []
   \<and> isValid (validateDatabaseConstraints stocked_env roundingOrder)"
proof -
  let ?d = "validAuthOrder\<lparr>total := 4398002530638889 / 4398046511104\<rparr>"
  have h: "\<bar>total ?d - (subtotal ?d + deliveryFee ?d
             - (case discountAmount ?d of None \<Rightarrow> 0 | Some x \<Rightarrow> x))\<bar> > 1 / 100"
    by (simp add: validAuthOrder_def)
  have c: "map code (errors (validateDatabaseConstraints jest_mock ?d))
       = [''INVALID_DELIVERY_METHOD'', ''PRODUCT_NOT_FOUND'', ''VALIDATION_ERROR'']"
    by (simp add: validateDatabaseConstraints_def try_block_def and_then_def
          checkDeliveryMethod_def array_includes_def checkCart_def checkProduct_def
          checkAuthenticated_def jest_mock_def validAuthOrder_def)
  have h2: "\<bar>total roundingOrder
        - (subtotal roundingOrder + deliveryFee roundingOrder
           - (case discountAmount roundingOrder of None \<Rightarrow> 0 | Some x \<Rightarrow> x))\<bar> > 1 / 100"
    by (simp add: roundingOrder_def validGuestOrder_def double_29_01_def)
  have r: "lookups_resolve stocked_env roundingOrder"
    by (simp add: lookups_resolve_def roundingOrder_def validGuestOrder_def stocked_env_def
          jest_mock_def)
  have e: "errors (validateDatabaseConstraints stocked_env roundingOrder) = []"
    unfolding validateDatabaseConstraints_def try_block_def checkTotal_roundingOrder
    by (simp add: and_then_def checkDeliveryMethod_def array_includes_def checkCart_def
          checkProduct_def checkDiscount_def checkAmounts_def double_0_01_def
          stocked_env_def jest_mock_def roundingOrder_def validGuestOrder_def
          checkGuest_test_guest)
  have v: "isValid (validateDatabaseConstraints stocked_env roundingOrder)"
    using e db_isValid by simp
  from h c h2 r e v show ?thesis by simp
qed

subsection \<open>Large quantities\<close>

lemma client_validateBusinessRules_tail:
  "client_validateBusinessRules d =
     result_of (client_tail d
       (forEach (cartItems d) checkQuantity
          (if length (cartItems d) = 0
           then push_error \<lparr>field = ''cartItems'', message = ''Cart cannot be empty'',
                  code = ''EMPTY_CART'', severity = error\<rparr> ([], [])
           else ([], []))))"
  by (simp only: client_validateBusinessRules_def client_tail_def Let_def)

lemma fst_if_push:
  "fst (if c then push_error e a else a) = fst a @ (if c then [e] else [])"
  by simp

lemma fst_if_push2:
  "fst (if c then push_error e a else if c' then push_error e' a else a) =
     fst a @ (if c then [e] else if c' then [e'] else [])"
  by simp

lemma snd_if_push: "snd (if c then push_error e a else a) = snd a"
  by simp

lemma snd_if_push2:
  "snd (if c then push_error e a else if c' then push_error e' a else a) = snd a"
  by simp

lemma checkGuest_client_fst:
  "fst a = fst b \<Longrightarrow> fst (checkGuest_client ci ad a) = fst (checkGuest_client ci ad b)"
  by (simp only: checkGuest_client_def Let_def fst_if_push fst_if_push2)

lemma checkGuest_client_snd: "snd (checkGuest_client ci ad a) = snd a"
  by (simp only: checkGuest_client_def Let_def snd_if_push snd_if_push2)

lemma checkAuthenticated_client_fst:
  "fst a = fst b \<Longrightarrow>
   fst (checkAuthenticated_client uid aid a) = fst (checkAuthenticated_client uid aid b)"
  by (simp only: checkAuthenticated_client_def Let_def fst_if_push)

lemma checkAuthenticated_client_snd: "snd (checkAuthenticated_client uid aid a) = snd a"
  by (simp only: checkAuthenticated_client_def Let_def snd_if_push)

lemma client_tail_fst:
  assumes "fst a = fst b" "shape d = shape d'" "total d = total d'"
    "deliveryMethod d = deliveryMethod d'"
  shows "fst (client_tail d a) = fst (client_tail d' b)"
proof -
  let ?t = "\<lambda>d a. (if total d \<le> 0
                then push_error \<lparr>field = ''total'',
                       message = ''Order total must be greater than 0'',
                       code = ''INVALID_TOTAL'', severity = error\<rparr> a
                else a)"
  let ?m = "\<lambda>d a. (if deliveryMethod d = []
                then push_error \<lparr>field = ''deliveryMethod'',
                       message = ''Delivery method is required'',
                       code = ''MISSING_DELIVERY_METHOD'', severity = error\<rparr> a
                else a)"
  have 4: "fst (?m d (?t d a)) = fst (?m d' (?t d' b))"
    using assms by (simp only: fst_if_push)
  show ?thesis
  proof (cases "shape d'")
    case (Guest ci ad)
    with assms(2) 4 show ?thesis
      by (simp only: client_tail_def Let_def shape.case checkGuest_client_fst [OF 4])
  next
    case (Authenticated uid aid)
    with assms(2) 4 show ?thesis
      by (simp only: client_tail_def Let_def shape.case
            checkAuthenticated_client_fst [OF 4])
  qed
qed

lemma client_tail_snd: "snd (client_tail d a) = snd a"
  by (cases "shape d")
     (simp_all only: client_tail_def Let_def shape.case checkGuest_client_snd
        checkAuthenticated_client_snd snd_if_push)

lemma checkQuantity_fst:
  "fst (checkQuantity item k a) =
     fst a @ (if quantity item \<le> 0
              then [\<lparr>field = ''cartItems['' @ showNat k @ ''].quantity'',
                     message = ''Quantity must be greater than 0'',
                     code = ''INVALID_QUANTITY'', severity = error\<rparr>]
              else [])"
  by (simp add: checkQuantity_def Let_def)

lemma checkQuantity_snd:
  "snd (checkQuantity item k a) =
     snd a @ (if quantity item > 10
              then [\<lparr>field = ''cartItems['' @ showNat k @ ''].quantity'',
                     message = ''Large quantity order - please verify'',
                     code = ''LARGE_QUANTITY'', severity = warning\<rparr>]
              else [])"
  by (simp add: checkQuantity_def Let_def)

lemma fold_checkQuantity_fst:
  "length xs = length ys \<Longrightarrow>
   (\<And>j. j < length xs \<Longrightarrow> (quantity (xs ! j) \<le> 0) = (quantity (ys ! j) \<le> 0)) \<Longrightarrow>
   fst a = fst b \<Longrightarrow>
   fst (fold (\<lambda>(i, x). checkQuantity x i) (enumerate k xs) a) =
   fst (fold (\<lambda>(i, x). checkQuantity x i) (enumerate k ys) b)"
proof (induction xs arbitrary: ys k a b)
  case Nil
  then show ?case by simp
next
  case (Cons x xs)
  then obtain y ys' where ys: "ys = y # ys'" by (cases ys) auto
  have q: "(quantity x \<le> 0) = (quantity y \<le> 0)"
    using Cons.prems(2) [of 0] ys by simp
  have step: "fst (checkQuantity x k a) = fst (checkQuantity y k b)"
    using q Cons.prems(3) by (simp add: checkQuantity_fst)
  have rest: "(quantity (xs ! j) \<le> 0) = (quantity (ys' ! j) \<le> 0)" if "j < length xs" for j
    using Cons.prems(2) [of "Suc j"] that ys by simp
  have "fst (fold (\<lambda>(i, x). checkQuantity x i) (enumerate (Suc k) xs) (checkQuantity x k a)) =
        fst (fold (\<lambda>(i, x). checkQuantity x i) (enumerate (Suc k) ys') (checkQuantity y k b))"
    using Cons.prems(1) ys by (intro Cons.IH rest step) simp_all
  then show ?case using ys by simp
qed

lemma fold_checkQuantity_snd_mono:
  "set (snd a) \<subseteq> set (snd (fold (\<lambda>(i, x). checkQuantity x i) (enumerate k xs) a))"
proof (induction xs arbitrary: k a)
  case Nil
  show ?case by simp
next
  case (Cons x xs)
  have "set (snd a) \<subseteq> set (snd (checkQuantity x k a))"
    by (simp add: checkQuantity_snd)
  also have "\<dots> \<subseteq> set (snd (fold (\<lambda>(i, x). checkQuantity x i) (enumerate (Suc k) xs)
                              (checkQuantity x k a)))"
    by (rule Cons.IH)
  finally show ?case by simp
qed

lemma fold_checkQuantity_warning:
  "i < length xs \<Longrightarrow> quantity (xs ! i) > 10 \<Longrightarrow>
   \<lparr>field = ''cartItems['' @ showNat (k + i) @ ''].quantity'',
    message = ''Large quantity order - please verify'',
    code = ''LARGE_QUANTITY'', severity = warning\<rparr>
   \<in> set (snd (fold (\<lambda>(i, x). checkQuantity x i) (enumerate k xs) a))"
proof (induction xs arbitrary: k i a)
  case Nil
  then show ?case by simp
next
  case (Cons x xs)
  show ?case
  proof (cases i)
    case 0
    with Cons.prems have "\<lparr>field = ''cartItems['' @ showNat k @ ''].quantity'',
        message = ''Large quantity order - please verify'',
        code = ''LARGE_QUANTITY'', severity = warning\<rparr> \<in> set (snd (checkQuantity x k a))"
      by (simp add: checkQuantity_snd)
    then show ?thesis
      using 0 fold_checkQuantity_snd_mono [of "checkQuantity x k a" "Suc k" xs] by auto
  next
    case (Suc j)
    with Cons.prems have "j < length xs" "quantity (xs ! j) > 10" by simp_all
    from Cons.IH [OF this, of "Suc k" "checkQuantity x k a"] Suc show ?thesis by simp
  qed
qed

lemma fold_checkMaxQuantity_mono:
  "set (fst a) \<subseteq> set (fst (fold checkMaxQuantity xs a))"
proof (induction xs arbitrary: a)
  case Nil
  show ?case by simp
next
  case (Cons x xs)
  have "set (fst a) \<subseteq> set (fst (checkMaxQuantity x a))"
    by (auto simp: checkMaxQuantity_def)
  also have "\<dots> \<subseteq> set (fst (fold checkMaxQuantity xs (checkMaxQuantity x a)))"
    by (rule Cons.IH)
  finally show ?case by simp
qed

lemma fold_checkMaxQuantity_error:
  "x \<in> set xs \<Longrightarrow> quantity x > 10 \<Longrightarrow>
   \<lparr>field = ''cartItems'', message = ''Maximum quantity per item is 10'',
    code = ''EXCESSIVE_QUANTITY'', severity = error\<rparr>
   \<in> set (fst (fold checkMaxQuantity xs a))"
proof (induction xs arbitrary: a)
  case Nil
  then show ?case by simp
next
  case (Cons y ys)
  show ?case
  proof (cases "x = y")
    case True
    with Cons.prems have "\<lparr>field = ''cartItems'', message = ''Maximum quantity per item is 10'',
        code = ''EXCESSIVE_QUANTITY'', severity = error\<rparr>
        \<in> set (fst (checkMaxQuantity y a))"
      by (simp add: checkMaxQuantity_def maxQuantityPerItem_def)
    then show ?thesis using fold_checkMaxQuantity_mono [of "checkMaxQuantity y a" ys] by auto
  next
    case False
    with Cons.prems have "x \<in> set ys" by simp
    from Cons.IH [OF this Cons.prems(2)] show ?thesis by simp
  qed
qed

text \<open>
  Claim C7, as amended. The claim is that the business-rule validator answers an item of
  quantity 15 with a warning \<^verbatim>\<open>LARGE_QUANTITY\<close> and not with an error. Each module has a
  validator of that name. The one of the client module does what the claim says: the
  warning for the item is in the result, the errors are those of the same draft with
  quantity 1 at that item, and \<^verbatim>\<open>isValid\<close> is \<^verbatim>\<open>errors.length === 0\<close>. The one of the
  server module, which \<^verbatim>\<open>validateOrder\<close> runs, pushes the error \<^verbatim>\<open>EXCESSIVE_QUANTITY\<close> for
  such an item and returns \<^verbatim>\<open>isValid = false\<close>.
\<close>

theorem large_quantity_client_warns_server_rejects:
  "i < length (cartItems d) \<Longrightarrow> quantity (cartItems d ! i) = 15 \<Longrightarrow>
     \<lparr>field = ''cartItems['' @ showNat i @ ''].quantity'',
      message = ''Large quantity order - please verify'',
      code = ''LARGE_QUANTITY'', severity = warning\<rparr>
       \<in> set (warnings (client_validateBusinessRules d))
     \<and> errors (client_validateBusinessRules d) =
         errors (client_validateBusinessRules
                   (d\<lparr>cartItems := (cartItems d)[i := (cartItems d ! i)\<lparr>quantity := 1\<rparr>]\<rparr>))
     \<and> isValid (client_validateBusinessRules d) =
         (errors (client_validateBusinessRules d) = [])
     \<and> \<lparr>field = ''cartItems'', message = ''Maximum quantity per item is 10'',
        code = ''EXCESSIVE_QUANTITY'', severity = error\<rparr>
       \<in> set (errors (server_validateBusinessRules d))
     \<and> \<not> isValid (server_validateBusinessRules d)"
proof -
  assume i: "i < length (cartItems d)" and q: "quantity (cartItems d ! i) = 15"
  let ?xs = "cartItems d"
  let ?ys = "(cartItems d)[i := (cartItems d ! i)\<lparr>quantity := 1\<rparr>]"
  let ?d' = "d\<lparr>cartItems := ?ys\<rparr>"
  let ?a1 = "(if length ?xs = 0
           then push_error \<lparr>field = ''cartItems'', message = ''Cart cannot be empty'',
                  code = ''EMPTY_CART'', severity = error\<rparr> ([], [])
           else ([], []))"
  have w: "\<lparr>field = ''cartItems['' @ showNat i @ ''].quantity'',
      message = ''Large quantity order - please verify'',
      code = ''LARGE_QUANTITY'', severity = warning\<rparr>
       \<in> set (warnings (client_validateBusinessRules d))"
    using fold_checkQuantity_warning [of i ?xs 0 ?a1] i q
    by (simp add: client_validateBusinessRules_tail client_tail_snd forEach_def)
  have same: "(quantity (?xs ! j) \<le> 0) = (quantity (?ys ! j) \<le> 0)" if "j < length ?xs" for j
    using that q by (cases "j = i") simp_all
  have "fst (fold (\<lambda>(i, x). checkQuantity x i) (enumerate 0 ?xs) ?a1) =
        fst (fold (\<lambda>(i, x). checkQuantity x i) (enumerate 0 ?ys) ?a1)"
    by (rule fold_checkQuantity_fst) (simp_all add: same)
  then have "fst (client_tail d (fold (\<lambda>(i, x). checkQuantity x i) (enumerate 0 ?xs) ?a1)) =
        fst (client_tail ?d' (fold (\<lambda>(i, x). checkQuantity x i) (enumerate 0 ?ys) ?a1))"
    by (rule client_tail_fst) simp_all
  then have e: "errors (client_validateBusinessRules d) =
      errors (client_validateBusinessRules ?d')"
    by (simp add: client_validateBusinessRules_tail forEach_def)
  have v: "isValid (client_validateBusinessRules d) =
         (errors (client_validateBusinessRules d) = [])"
    by (simp add: client_validateBusinessRules_tail)
  have "cartItems d ! i \<in> set (cartItems d)" using i by simp
  then have s: "\<lparr>field = ''cartItems'', message = ''Maximum quantity per item is 10'',
        code = ''EXCESSIVE_QUANTITY'', severity = error\<rparr>
       \<in> set (errors (server_validateBusinessRules d))"
    using fold_checkMaxQuantity_error [of "cartItems d ! i" "cartItems d"] q
    by (simp add: server_validateBusinessRules_def Let_def)
  then have "\<not> isValid (server_validateBusinessRules d)"
    by (auto simp: server_validateBusinessRules_def Let_def)
  with w e v s show ?thesis by blast
qed


theorem large_quantity_client_warns_server_rejects_witness:
  "0 < length (cartItems quantity15Order)
   \<and> quantity (cartItems quantity15Order ! 0) = 15
   \<and> \<lparr>field = ''cartItems[0].quantity'',
       message = ''Large quantity order - please verify'',
       code = ''LARGE_QUANTITY'', severity = warning\<rparr>
       \<in> set (warnings (client_validateBusinessRules quantity15Order))
   \<and> errors (client_validateBusinessRules quantity15Order) = []
   \<and> isValid (client_validateBusinessRules quantity15Order)
   \<and> \<not> isValid (server_validateBusinessRules quantity15Order)"
proof -
  have l: "0 < length (cartItems quantity15Order)"
    by (simp add: quantity15Order_def)
  have q: "quantity (cartItems quantity15Order ! 0) = 15"
    by (simp add: quantity15Order_def)
  have n: "showNat 0 = ''0''"
    by (simp add: showNat.simps digit_def)
  have e: "errors (client_validateBusinessRules quantity15Order) = []"
    by (simp add: client_validateBusinessRules_def forEach_def checkQuantity_def
          quantity15Order_def validGuestOrder_def checkGuest_client_test_guest)
  from large_quantity_client_warns_server_rejects [OF l q] l q n e show ?thesis by simp
qed

text \<open>
  The business rules of the server module on the draft of the test suite with quantity
  15: one error, no warning, invalid.
\<close>

theorem large_quantity_counterexample:
  "quantity (cartItems quantity15Order ! 0) = 15
   \<and> errors (server_validateBusinessRules quantity15Order) =
       [\<lparr>field = ''cartItems'', message = ''Maximum quantity per item is 10'',
         code = ''EXCESSIVE_QUANTITY'', severity = error\<rparr>]
   \<and> warnings (server_validateBusinessRules quantity15Order) = []
   \<and> \<not> isValid (server_validateBusinessRules quantity15Order)"
  by (simp add: server_validateBusinessRules_def checkMaxQuantity_def
        minimumOrderValue_def maximumOrderValue_def maxQuantityPerItem_def
        quantity15Order_def validGuestOrder_def)

subsection \<open>What the logger writes\<close>

lemma io_simps [simp]:
  "fst (io_return x) = Inr x" "snd (io_return x) = []"
  "fst (io_lift r) = r" "snd (io_lift r) = []"
  "fst (io_emit ef) = Inr ()" "snd (io_emit ef) = [ef]"
  by (simp_all add: io_return_def io_lift_def io_emit_def)

lemma getClientIP_simps [simp]:
  "fst getClientIP = Inr ''client_ip_masked''" "snd getClientIP = []"
  by (simp_all add: getClientIP_def io_try_def io_return_def)

lemma io_bind_effects:
  "ef \<in> set (snd (io_bind m f)) \<Longrightarrow>
   ef \<in> set (snd m) \<or> (\<exists>v. fst m = Inr v \<and> ef \<in> set (snd (f v)))"
  by (cases m; cases "fst m") (auto simp: io_bind_def split: prod.splits)

lemma io_try_effects:
  "ef \<in> set (snd (io_try m h)) \<Longrightarrow>
   ef \<in> set (snd m) \<or> (\<exists>x. fst m = Inl x \<and> ef \<in> set (snd (h x)))"
  by (cases m; cases "fst m") (auto simp: io_try_def split: prod.splits)

lemma storeAuditLog_inserts:
  "DbInsert en \<in> set (snd (storeAuditLog env entry)) \<Longrightarrow> en = entry"
  unfolding storeAuditLog_def
  by (auto dest!: io_try_effects io_bind_effects split: if_splits)

lemma storeAuditLog_no_alert: "Alert en \<notin> set (snd (storeAuditLog env entry))"
  unfolding storeAuditLog_def
  by (auto dest!: io_try_effects io_bind_effects split: if_splits)

lemma sendCriticalAlert_effects:
  "ef \<in> set (snd (sendCriticalAlert entry)) \<Longrightarrow> ef = Alert entry"
  unfolding sendCriticalAlert_def
  by (auto dest!: io_try_effects)

lemma logValidationViolation_inserts:
  "DbInsert en \<in> set (snd (logValidationViolation env this d errs ctx)) \<Longrightarrow>
   entry_severity en = determineSeverity errs \<and> validation_errors en = errs
   \<and> sanitizeOrderData d = Inr (order_data en)"
  unfolding logValidationViolation_def Let_def
  by (auto dest!: io_try_effects io_bind_effects storeAuditLog_inserts
        sendCriticalAlert_effects split: if_splits)

lemma logValidationViolation_alerts:
  "Alert en \<in> set (snd (logValidationViolation env this d errs ctx)) \<Longrightarrow>
   determineSeverity errs = critical"
  unfolding logValidationViolation_def Let_def
  by (auto dest!: io_try_effects io_bind_effects sendCriticalAlert_effects
        simp: storeAuditLog_no_alert split: if_splits)

lemma logValidationSuccess_inserts:
  "DbInsert en \<in> set (snd (logValidationSuccess env this d warns)) \<Longrightarrow>
   sanitizeOrderData d = Inr (order_data en)"
  unfolding logValidationSuccess_def Let_def
  by (auto dest!: io_try_effects io_bind_effects storeAuditLog_inserts split: if_splits)

lemma logSuspiciousActivity_inserts:
  "DbInsert en \<in> set (snd (logSuspiciousActivity env this description d ctx)) \<Longrightarrow>
   sanitizeOrderData d = Inr (order_data en)"
  unfolding logSuspiciousActivity_def Let_def
  by (auto dest!: io_try_effects io_bind_effects storeAuditLog_inserts
        sendCriticalAlert_effects split: if_splits)


lemma not_in_tiers_low:
  "\<forall>e\<in>set errs. code e \<notin> set criticalCodes \<union> set highCodes \<union> set mediumCodes \<Longrightarrow>
   determineSeverity errs = low"
  by (auto simp: determineSeverity_def some_iff array_includes_def)

subsection \<open>The code of the cart-empty error and its severity\<close>

text \<open>
  Claim C9. The cart-empty error that the two validators push carries the code
  \<^verbatim>\<open>EMPTY_CART\<close>, which is in none of the three tiers of \<^verbatim>\<open>determineSeverity\<close> (the
  critical tier lists \<^verbatim>\<open>CART_EMPTY\<close>). So for every list of errors that all carry the
  code \<^verbatim>\<open>EMPTY_CART\<close> the severity is \<open>low\<close>: every entry that \<^verbatim>\<open>logValidationViolation\<close>
  inserts for such a list has severity \<open>low\<close>, and no critical alert is sent.
\<close>

theorem empty_cart_code_classified_low:
  "\<forall>e\<in>set errs. code e = ''EMPTY_CART'' \<Longrightarrow>
     ''EMPTY_CART'' \<notin> set criticalCodes \<union> set highCodes \<union> set mediumCodes
     \<and> (cartItems d = [] \<longrightarrow>
          \<lparr>field = ''cartItems'', message = ''Cart cannot be empty'', code = ''EMPTY_CART'',
           severity = error\<rparr> \<in> set (errors (client_validateBusinessRules d))
          \<and> \<lparr>field = ''cartItems'', message = ''Order must contain at least one item'',
             code = ''EMPTY_CART'', severity = error\<rparr>
             \<in> set (errors (validateDatabaseConstraints denv d)))
     \<and> determineSeverity errs = low
     \<and> (\<forall>en. DbInsert en \<in> set (snd (logValidationViolation env this d errs ctx))
            \<longrightarrow> entry_severity en = low \<and> validation_errors en = errs)
     \<and> (\<forall>en. Alert en \<notin> set (snd (logValidationViolation env this d errs ctx)))"
proof -
  assume only: "\<forall>e\<in>set errs. code e = ''EMPTY_CART''"
  have out: "''EMPTY_CART'' \<notin> set criticalCodes \<union> set highCodes \<union> set mediumCodes"
    by (simp add: criticalCodes_def highCodes_def mediumCodes_def)
  have lo: "determineSeverity errs = low"
    by (rule not_in_tiers_low) (use only out in auto)
  have ins: "entry_severity en = low \<and> validation_errors en = errs"
    if "DbInsert en \<in> set (snd (logValidationViolation env this d errs ctx))" for en
    using logValidationViolation_inserts [OF that] lo by simp
  have al: "Alert en \<notin> set (snd (logValidationViolation env this d errs ctx))" for en
    using logValidationViolation_alerts [of en env this d errs ctx] lo by auto
  from out lo ins al empty_cart_errors [of d denv] show ?thesis by blast
qed

theorem empty_cart_code_classified_low_witness:
  "determineSeverity
     [\<lparr>field = ''cartItems'', message = ''Cart cannot be empty'', code = ''EMPTY_CART'',
       severity = error\<rparr>] = low
   \<and> snd (logValidationViolation browser_logger_env test_logger
            (validGuestOrder\<lparr>cartItems := []\<rparr>)
            [\<lparr>field = ''cartItems'', message = ''Cart cannot be empty'', code = ''EMPTY_CART'',
              severity = error\<rparr>] None) =
       [DbInsert
          \<lparr>timestamp = ''2024-01-01T00:00:00.000Z'',
           event_type = validation_failure,
           user_id = None,
           session_id = Some ''session_1_abc'',
           order_data =
             validGuestOrder
               \<lparr>shape :=
                  Guest \<lparr>full_name = ''John Doe'', email = ''jo**@example.com'',
                          phone = ''+27******789''\<rparr>
                        \<lparr>street_address = ''123 Main St'', city = ''Cape Town'',
                          province = ''Western Cape'', postal_code = ''8001'',
                          address_phone = ''+27******789''\<rparr>,
                cartItems := []\<rparr>,
           validation_errors =
             [\<lparr>field = ''cartItems'', message = ''Cart cannot be empty'',
               code = ''EMPTY_CART'', severity = error\<rparr>],
           entry_severity = low,
           ip_address = Some ''client_ip_masked'',
           user_agent = Some ''jest'',
           additional_context = None\<rparr>]"
proof -
  let ?e = "\<lparr>field = ''cartItems'', message = ''Cart cannot be empty'', code = ''EMPTY_CART'',
       severity = error\<rparr>"
  have h: "\<forall>e\<in>set [?e]. code e = ''EMPTY_CART''" by simp
  have lo: "determineSeverity [?e] = low"
    using empty_cart_code_classified_low [OF h] by simp
  have san: "sanitizeOrderData (validGuestOrder\<lparr>cartItems := []\<rparr>) =
      Inr (validGuestOrder
               \<lparr>shape :=
                  Guest \<lparr>full_name = ''John Doe'', email = ''jo**@example.com'',
                          phone = ''+27******789''\<rparr>
                        \<lparr>street_address = ''123 Main St'', city = ''Cape Town'',
                          province = ''Western Cape'', postal_code = ''8001'',
                          address_phone = ''+27******789''\<rparr>,
                cartItems := []\<rparr>)"
    by (simp add: sanitizeOrderData_def maskEmail_def maskPhone_def repeat_def
          substring_def substring_from_def validGuestOrder_def eval_nat_numeral)
  have "snd (logValidationViolation browser_logger_env test_logger
            (validGuestOrder\<lparr>cartItems := []\<rparr>) [?e] None) =
       [DbInsert
          \<lparr>timestamp = ''2024-01-01T00:00:00.000Z'',
           event_type = validation_failure,
           user_id = None,
           session_id = Some ''session_1_abc'',
           order_data =
             validGuestOrder
               \<lparr>shape :=
                  Guest \<lparr>full_name = ''John Doe'', email = ''jo**@example.com'',
                          phone = ''+27******789''\<rparr>
                        \<lparr>street_address = ''123 Main St'', city = ''Cape Town'',
                          province = ''Western Cape'', postal_code = ''8001'',
                          address_phone = ''+27******789''\<rparr>,
                cartItems := []\<rparr>,
           validation_errors = [?e],
           entry_severity = low,
           ip_address = Some ''client_ip_masked'',
           user_agent = Some ''jest'',
           additional_context = None\<rparr>]"
    unfolding logValidationViolation_def san lo
    by (simp add: io_bind_def io_try_def io_lift_def io_return_def io_emit_def
          getClientIP_def storeAuditLog_def determineEventType_def some_def
          entry_user_id_def browser_logger_env_def test_logger_def validGuestOrder_def)
  with lo show ?thesis by simp
qed

subsection \<open>The frame of the sanitization\<close>

lemma maskEmail_returns: "\<exists>m. maskEmail e = Inr m"
  by (simp add: maskEmail_def Let_def repeat_def)

text \<open>
  Claim C10. A snapshot that \<^verbatim>\<open>sanitizeOrderData\<close> returns differs from the draft in
  \<^verbatim>\<open>customerInfo.email\<close>, \<^verbatim>\<open>customerInfo.phone\<close> and \<^verbatim>\<open>address.phone\<close> at most: the cart,
  the delivery method, the fee, the subtotal, the discount and the total are those of the
  draft; for a guest draft the customer record and the address are those of the draft
  with these three fields replaced (so the name, the street, the city, the province and
  the postal code stay); an authenticated draft is returned as it is, with its
  \<^verbatim>\<open>userId\<close> and \<^verbatim>\<open>addressId\<close>. The function returns a snapshot exactly when neither
  phone of a guest draft has length 5. The draft that an inserted audit entry holds is
  that snapshot, for each of the three logging operations.
\<close>

theorem sanitizeOrderData_frame:
  "(sanitizeOrderData d = Inr s \<longrightarrow>
      cartItems s = cartItems d \<and> deliveryMethod s = deliveryMethod d
      \<and> deliveryFee s = deliveryFee d \<and> subtotal s = subtotal d
      \<and> discountCode s = discountCode d \<and> discountAmount s = discountAmount d
      \<and> total s = total d
      \<and> (case shape d of
            Guest ci ad \<Rightarrow>
              \<exists>e' p' ap'. shape s = Guest (ci\<lparr>email := e', phone := p'\<rparr>)
                                          (ad\<lparr>address_phone := ap'\<rparr>)
          | Authenticated uid aid \<Rightarrow> shape s = Authenticated uid aid))
   \<and> ((\<exists>s'. sanitizeOrderData d = Inr s') \<longleftrightarrow>
        (case shape d of
           Guest ci ad \<Rightarrow> length (phone ci) \<noteq> 5 \<and> length (address_phone ad) \<noteq> 5
         | Authenticated uid aid \<Rightarrow> True))
   \<and> (\<forall>en. DbInsert en \<in> set (snd (logValidationViolation env this d errs ctx))
             \<or> DbInsert en \<in> set (snd (logValidationSuccess env this d warns))
             \<or> DbInsert en \<in> set (snd (logSuspiciousActivity env this description d ctx))
          \<longrightarrow> sanitizeOrderData d = Inr (order_data en))"
proof -
  have frame: "cartItems s = cartItems d \<and> deliveryMethod s = deliveryMethod d
      \<and> deliveryFee s = deliveryFee d \<and> subtotal s = subtotal d
      \<and> discountCode s = discountCode d \<and> discountAmount s = discountAmount d
      \<and> total s = total d
      \<and> (case shape d of
            Guest ci ad \<Rightarrow>
              \<exists>e' p' ap'. shape s = Guest (ci\<lparr>email := e', phone := p'\<rparr>)
                                          (ad\<lparr>address_phone := ap'\<rparr>)
          | Authenticated uid aid \<Rightarrow> shape s = Authenticated uid aid)"
    if san: "sanitizeOrderData d = Inr s"
  proof (cases "shape d")
    case (Guest ci ad)
    from san Guest obtain e' p' ap' where
      "s = d\<lparr>shape := Guest (ci\<lparr>email := e', phone := p'\<rparr>) (ad\<lparr>address_phone := ap'\<rparr>)\<rparr>"
      by (auto simp: sanitizeOrderData_def split: sum.splits)
    with Guest show ?thesis by auto
  next
    case (Authenticated uid aid)
    with san show ?thesis by (auto simp: sanitizeOrderData_def)
  qed
  have phone_ok: "(\<exists>m. maskPhone p = Inr m) \<longleftrightarrow> length p \<noteq> 5" for p
    by (auto simp: maskPhone_def repeat_def)
  have total: "(\<exists>s'. sanitizeOrderData d = Inr s') \<longleftrightarrow>
        (case shape d of
           Guest ci ad \<Rightarrow> length (phone ci) \<noteq> 5 \<and> length (address_phone ad) \<noteq> 5
         | Authenticated uid aid \<Rightarrow> True)"
  proof (cases "shape d")
    case (Guest ci ad)
    obtain m where m: "maskEmail (email ci) = Inr m" using maskEmail_returns by blast
    show ?thesis
      using Guest m phone_ok [of "phone ci"] phone_ok [of "address_phone ad"]
      by (cases "maskPhone (phone ci)"; cases "maskPhone (address_phone ad)")
         (simp_all add: sanitizeOrderData_def)
  next
    case (Authenticated uid aid)
    then show ?thesis by (simp add: sanitizeOrderData_def)
  qed
  from frame total logValidationViolation_inserts [of _ env this d errs ctx]
    logValidationSuccess_inserts [of _ env this d warns]
    logSuspiciousActivity_inserts [of _ env this description d ctx]
  show ?thesis by blast
qed

theorem sanitizeOrderData_frame_witness:
  "sanitizeOrderData validGuestOrder =
     Inr (validGuestOrder
            \<lparr>shape :=
               Guest \<lparr>full_name = ''John Doe'', email = ''jo**@example.com'',
                       phone = ''+27******789''\<rparr>
                     \<lparr>street_address = ''123 Main St'', city = ''Cape Town'',
                       province = ''Western Cape'', postal_code = ''8001'',
                       address_phone = ''+27******789''\<rparr>\<rparr>)
   \<and> cartItems (validGuestOrder
            \<lparr>shape :=
               Guest \<lparr>full_name = ''John Doe'', email = ''jo**@example.com'',
                       phone = ''+27******789''\<rparr>
                     \<lparr>street_address = ''123 Main St'', city = ''Cape Town'',
                       province = ''Western Cape'', postal_code = ''8001'',
                       address_phone = ''+27******789''\<rparr>\<rparr>) = cartItems validGuestOrder
   \<and> sanitizeOrderData validAuthOrder = Inr validAuthOrder"
proof -
  let ?s = "validGuestOrder
            \<lparr>shape :=
               Guest \<lparr>full_name = ''John Doe'', email = ''jo**@example.com'',
                       phone = ''+27******789''\<rparr>
                     \<lparr>street_address = ''123 Main St'', city = ''Cape Town'',
                       province = ''Western Cape'', postal_code = ''8001'',
                       address_phone = ''+27******789''\<rparr>\<rparr>"
  have san: "sanitizeOrderData validGuestOrder = Inr ?s"
    by (simp add: sanitizeOrderData_def maskEmail_def maskPhone_def repeat_def
          substring_def substring_from_def validGuestOrder_def eval_nat_numeral)
  have "sanitizeOrderData validAuthOrder = Inr validAuthOrder"
    by (simp add: sanitizeOrderData_def validAuthOrder_def)
  with san sanitizeOrderData_frame [of validGuestOrder ?s] show ?thesis by simp
qed

end
